theory Spec2Isabelle
  imports Complex_Main "HOL-Library.Log_Nat"
begin

section \<open>Data model of the swap coordinator (src/lib/swaps/Swaps.ts)\<close>

text \<open>
  A JavaScript \<open>number\<close> is a double. The model holds a finite double as the rational
  number that it is, and an arithmetic operation gives the exact result rounded to
  binary64: to the nearest double, ties to the even mantissa, with gradual underflow.
  Where the JavaScript result is not finite (an overflow, a division by zero) the model
  stops with \<open>Unmodelled\<close>, as it does where the code would go on with an \<open>undefined\<close>
  currency. The sign of a zero is not represented; only a division by zero could tell
  it. Values that come from outside (orders, packets, chain clients) are doubles.
\<close>

type_synonym number = rat

definition binary64 :: "rat \<Rightarrow> rat" where
  "binary64 x =
     (if x = 0 then 0
      else
        (let a = \<bar>x\<bar>;
             (p, q) = quotient_of a;
             e0 = bitlen p - bitlen q;
             e = (if a < 2 powi e0 then e0 - 1 else e0);
             ulp = 2 powi (max (e - 52) (- 1074));
             m = a / ulp;
             f = \<lfloor>m\<rfloor>;
             r = (if m - of_int f < 1 / 2 then f
                  else if 1 / 2 < m - of_int f then f + 1
                  else if even f then f else f + 1)
         in sgn x * of_int r * ulp))"

text \<open>
  A rounded result is finite when it is below \<open>2^1024\<close> in absolute value (at most 1024
  bits before the point).
\<close>

definition finite64 :: "number \<Rightarrow> bool" where
  "finite64 x = (bitlen \<lfloor>\<bar>x\<bar>\<rfloor> \<le> 1024)"

definition addJS :: "number \<Rightarrow> number \<Rightarrow> number" where
  "addJS a b = binary64 (a + b)"

definition subJS :: "number \<Rightarrow> number \<Rightarrow> number" where
  "subJS a b = binary64 (a - b)"

definition mulJS :: "number \<Rightarrow> number \<Rightarrow> number" where
  "mulJS a b = binary64 (a * b)"

definition divJS :: "number \<Rightarrow> number \<Rightarrow> number" where
  "divJS a b = binary64 (a / b)"

text \<open>\<open>Math.round\<close> of a double: the nearest integer, a tie going up.\<close>

definition Math_round :: "number \<Rightarrow> number" where
  "Math_round x = of_int \<lfloor>x + 1 / 2\<rfloor>"

text \<open>
  The same rounding on integers, for a fraction \<open>p / q\<close> in lowest terms: the exponent,
  the mantissa rounded to the nearest integer with ties to the even one, and the result.
  These functions are equal to the definition above (\<open>binary64_code\<close> below) and are what
  the evaluation of an example runs.
\<close>

definition b64_exp :: "int \<Rightarrow> int \<Rightarrow> int \<Rightarrow> int" where
  "b64_exp p q e0 =
     (if (if 0 \<le> e0 then p < q * 2 ^ nat e0 else p * 2 ^ nat (- e0) < q) then e0 - 1 else e0)"

definition b64_round :: "int \<Rightarrow> int \<Rightarrow> int" where
  "b64_round n d =
     (if 2 * (n mod d) < d then n div d
      else if d < 2 * (n mod d) then n div d + 1
      else if even (n div d) then n div d else n div d + 1)"

definition b64_scaled :: "int \<Rightarrow> int \<Rightarrow> int \<Rightarrow> rat" where
  "b64_scaled p q k =
     (if 0 \<le> k then of_int (b64_round p (q * 2 ^ nat k) * 2 ^ nat k)
      else Fract (b64_round (p * 2 ^ nat (- k)) q) (2 ^ nat (- k)))"

definition b64_abs :: "int \<Rightarrow> int \<Rightarrow> rat" where
  "b64_abs p q = b64_scaled p q (max (b64_exp p q (bitlen p - bitlen q) - 52) (- 1074))"

text \<open>The enumerations of \<open>types/enums\<close>.\<close>

datatype SwapDealRole = Taker | Maker

datatype SwapDealPhase =
  SwapCreated | SwapRequested | SwapAgreed | AmountSent | AmountReceived | SwapCompleted

datatype SwapDealState = Active | Error | Completed

text \<open>An \<open>lndrpc.Route\<close>, of which the coordinator reads \<open>getTotalTimeLock()\<close> only.\<close>

record Route =
  totalTimeLock :: number

text \<open>
  The packet bodies, with the fields \<open>Swaps.ts\<close> reads and writes. Field names carry a
  suffix where the deal record has a field of the same name.
\<close>

record SwapRequestPacketBody =
  takerCurrency_rq :: string
  makerCurrency_rq :: string
  takerAmount_rq :: number
  makerAmount_rq :: number
  takerCltvDelta_rq :: number
  r_hash_rq :: string
  orderId_rq :: string
  pairId_rq :: string
  proposedQuantity_rq :: number

record SwapResponsePacketBody =
  makerCltvDelta_rs :: "number option"
  r_hash_rs :: string
  quantity_rs :: "number option"

datatype packet =
  SwapRequestPacket SwapRequestPacketBody
  | SwapResponsePacket SwapResponsePacketBody string
  | SwapCompletePacket string
  | SwapErrorPacket string string "string option"

text \<open>The summary record emitted with \<open>swap.paid\<close>.\<close>

record SwapResult =
  orderId_sr :: string
  localId_sr :: string
  pairId_sr :: string
  quantity_sr :: "number option"
  amountReceived :: number
  amountSent :: number
  r_hash_sr :: string
  peerPubKey_sr :: string
  role_sr :: SwapDealRole

text \<open>The type \<open>SwapDeal\<close>; an optional field is an \<open>option\<close>.\<close>

record SwapDeal =
  myRole :: SwapDealRole
  phase :: SwapDealPhase
  state :: SwapDealState
  stateReason :: string
  peerPubKey :: string
  orderId :: string
  localOrderId :: string
  proposedQuantity :: number
  quantity :: "number option"
  pairId :: string
  takerAmount :: number
  takerCurrency :: string
  takerPubKey :: "string option"
  takerCltvDelta :: number
  makerAmount :: number
  makerCurrency :: string
  makerCltvDelta :: "number option"
  price :: number
  r_hash :: string
  r_preimage :: "string option"
  makerToTakerRoutes :: "Route list option"
  createTime :: number
  executeTime :: "number option"
  competionTime :: "number option"

text \<open>
  Deals are JavaScript objects, shared by reference between the registry, the handlers
  that are suspended at an \<open>await\<close>, and the listeners of \<open>swap.failed\<close>. The model keeps
  them in a store \<open>objs\<close>, a reference being an index into it; \<open>deals\<close> is the
  \<open>Map\<close> from \<open>r_hash\<close> to deal. What the class emits and what it sends to peers is
  recorded in two logs. An emission is tagged with the reference of the deal it is made
  for (for \<open>swap.failed\<close> this is the payload itself). The listeners of the events
  are outside these sources but for those of \<open>executeSwap\<close>; they are taken not to call
  back into the class. The calls of the logger are left out.
\<close>

type_synonym ref = nat

datatype event = swap_paid ref SwapResult | swap_failed ref

record Swaps =
  deals :: "string \<rightharpoonup> ref"
  objs :: "SwapDeal list"
  emitted :: "event list"
  sentPackets :: "(string \<times> packet) list"

definition initial :: Swaps where
  "initial = \<lparr>deals = Map.empty, objs = [], emitted = [], sentPackets = []\<rparr>"

text \<open>
  The collaborators: a peer, the two chain clients of the coordinator (their connection
  status is read when a method runs, so each method takes them as an argument), the
  orders of the order book, and the requests and answers of the chain clients.
\<close>

record Peer =
  nodePubKey :: string
  getLndPubKey :: "string \<Rightarrow> string option"

record LndClient =
  isConnected :: bool
  cltvDelta :: number

record LndClients =
  lndBtcClient :: LndClient
  lndLtcClient :: LndClient

datatype client = BtcClient | LtcClient

record StampedPeerOrder =
  id_po :: string
  pairId_po :: string
  price_po :: number
  peerPubKey_po :: string

record StampedOwnOrder =
  localId_oo :: string
  pairId_oo :: string
  quantity_oo :: number
  isBuy :: bool

record OrderToAccept =
  quantityToAccept :: number
  price_ota :: number
  localId_ota :: string

record QueryRoutesRequest =
  amt_q :: number
  finalCltvDelta_q :: number
  numRoutes :: nat
  pubKey_q :: "string option"

record SendRequest =
  amt :: number
  destString :: "string option"
  paymentHashString :: string
  finalCltvDelta :: "number option"

record SendToRouteRequest =
  routesList :: "Route list option"
  paymentHashString_r :: string

text \<open>
  The answer of \<open>sendPaymentSync\<close> and \<open>sendToRouteSync\<close>. The source reads the
  preimage as base64 and re-encodes the same bytes in hexadecimal; the model holds the
  hexadecimal form.
\<close>

record SendResponse =
  paymentError :: string
  paymentPreimage :: string

record ResolveRequest =
  hash :: string
  amount :: number
  timeout :: number
  heightNow :: number

section \<open>Exceptions and sequencing\<close>

text \<open>
  A method is a function from the state to an outcome and the state it leaves: \<open>Inl\<close> an
  exception thrown, \<open>Inr\<close> the value returned. The mutations made before a throw stay.
\<close>

datatype exn = AssertionError string | JsError string | Unmodelled string

fun message :: "exn \<Rightarrow> string" where
  "message (AssertionError m) = m"
| "message (JsError m) = m"
| "message (Unmodelled m) = m"

type_synonym 'a action = "Swaps \<Rightarrow> (exn + 'a) \<times> Swaps"

definition ret :: "'a \<Rightarrow> 'a action" where
  "ret x = (\<lambda>s. (Inr x, s))"

definition throw :: "exn \<Rightarrow> 'a action" where
  "throw e = (\<lambda>s. (Inl e, s))"

definition bnd :: "'a action \<Rightarrow> ('a \<Rightarrow> 'b action) \<Rightarrow> 'b action" where
  "bnd m f = (\<lambda>s. case m s of (Inl e, s') \<Rightarrow> (Inl e, s') | (Inr x, s') \<Rightarrow> f x s')"

definition catch :: "'a action \<Rightarrow> (exn \<Rightarrow> 'a action) \<Rightarrow> 'a action" where
  "catch m h = (\<lambda>s. case m s of (Inl e, s') \<Rightarrow> h e s' | (Inr x, s') \<Rightarrow> (Inr x, s'))"

definition assert :: "bool \<Rightarrow> string \<Rightarrow> unit action" where
  "assert b msg = (if b then ret () else throw (AssertionError msg))"

text \<open>The result of an arithmetic operation, with which the method goes on if it is finite.\<close>

definition finiteNumber :: "number \<Rightarrow> number action" where
  "finiteNumber x = (if finite64 x then ret x else throw (Unmodelled ''Infinity or NaN''))"

text \<open>Reading a deal object, assigning to its fields, emitting, sending.\<close>

definition getObj :: "ref \<Rightarrow> SwapDeal action" where
  "getObj a = (\<lambda>s. (Inr (objs s ! a), s))"

definition modify :: "ref \<Rightarrow> (SwapDeal \<Rightarrow> SwapDeal) \<Rightarrow> unit action" where
  "modify a f = (\<lambda>s. (Inr (), s\<lparr>objs := (objs s)[a := f (objs s ! a)]\<rparr>))"

definition newObj :: "SwapDeal \<Rightarrow> ref action" where
  "newObj d = (\<lambda>s. (Inr (length (objs s)), s\<lparr>objs := objs s @ [d]\<rparr>))"

definition emit :: "event \<Rightarrow> unit action" where
  "emit e = (\<lambda>s. (Inr (), s\<lparr>emitted := emitted s @ [e]\<rparr>))"

definition sendPacket :: "Peer \<Rightarrow> packet \<Rightarrow> unit action" where
  "sendPacket peer p = (\<lambda>s. (Inr (), s\<lparr>sentPackets := sentPackets s @ [(nodePubKey peer, p)]\<rparr>))"

text \<open>
  A method that reaches an \<open>await\<close> is modelled in parts: the part before the call
  returns \<open>Awaiting\<close> with the request it issued, and the part after it takes what the
  call answered (\<open>Inl\<close> the message of the error it threw).
\<close>

datatype ('r, 'c) suspended = Return 'r | Awaiting 'c

text \<open>JavaScript truthiness of an optional string and of an optional number.\<close>

fun truthyS :: "string option \<Rightarrow> bool" where
  "truthyS None = False"
| "truthyS (Some s) = (s \<noteq> [])"

fun truthyN :: "number option \<Rightarrow> bool" where
  "truthyN None = False"
| "truthyN (Some n) = (n \<noteq> 0)"

text \<open>\<open>'...' + x\<close> for an optional string \<open>x\<close>.\<close>

fun str :: "string option \<Rightarrow> string" where
  "str None = ''undefined''"
| "str (Some s) = s"

section \<open>The registry\<close>

definition getDeal :: "string \<Rightarrow> ref option action" where
  "getDeal h = (\<lambda>s. (Inr (deals s h), s))"

definition addDeal :: "ref \<Rightarrow> unit action" where
  "addDeal a = (\<lambda>s. (Inr (), s\<lparr>deals := (deals s)(r_hash (objs s ! a) \<mapsto> a)\<rparr>))"

definition removeDeal :: "ref \<Rightarrow> unit action" where
  "removeDeal a = (\<lambda>s. (Inr (), s\<lparr>deals := (deals s)(r_hash (objs s ! a) := None)\<rparr>))"

section \<open>The state machine\<close>

definition setDealState :: "ref \<Rightarrow> SwapDealState \<Rightarrow> string \<Rightarrow> unit action" where
  "setDealState a newState newStateReason =
     bnd (getObj a) (\<lambda>deal.
       if state deal = newState \<and> state deal = Error then
         modify a (\<lambda>d. d\<lparr>stateReason := stateReason d @ ''; '' @ newStateReason\<rparr>)
       else
         bnd (assert (state deal = Active) ''deal is not Active. Can not change deal state'') (\<lambda>_.
         bnd (modify a (\<lambda>d. d\<lparr>state := newState, stateReason := newStateReason\<rparr>)) (\<lambda>_.
         bnd (getObj a) (\<lambda>deal.
           if state deal = Error then emit (swap_failed a) else ret ()))))"

definition swapResult :: "SwapDeal \<Rightarrow> SwapResult" where
  "swapResult deal =
     \<lparr>orderId_sr = orderId deal, localId_sr = localOrderId deal, pairId_sr = pairId deal,
      quantity_sr = quantity deal, amountReceived = makerAmount deal,
      amountSent = takerAmount deal, r_hash_sr = r_hash deal,
      peerPubKey_sr = peerPubKey deal, role_sr = myRole deal\<rparr>"

definition setDealPhase :: "ref \<Rightarrow> SwapDealPhase \<Rightarrow> number \<Rightarrow> unit action" where
  "setDealPhase a newPhase now =
     bnd (getObj a) (\<lambda>deal.
     bnd (assert (state deal = Active) ''deal is not Active. Can not change deal phase'') (\<lambda>_.
     bnd (case newPhase of
            SwapCreated \<Rightarrow> assert False ''can not set deal phase to SwapCreated.''
          | SwapRequested \<Rightarrow>
              bnd (assert (myRole deal = Taker) ''SwapRequested can only be set by the taker'') (\<lambda>_.
              assert (phase deal = SwapCreated) ''SwapRequested can be only be set after SwapCreated'')
          | SwapAgreed \<Rightarrow>
              bnd (assert (myRole deal = Maker) ''SwapAgreed can only be set by the maker'') (\<lambda>_.
              assert (phase deal = SwapCreated) ''SwapAgreed can be only be set after SwapCreated'')
          | AmountSent \<Rightarrow>
              bnd (assert (myRole deal = Taker \<and> phase deal = SwapRequested \<or>
                           myRole deal = Maker \<and> phase deal = SwapAgreed)
                     ''AmountSent can only be set after SwapRequested (taker) or SwapAgreed (maker)'') (\<lambda>_.
              modify a (\<lambda>d. d\<lparr>executeTime := Some now\<rparr>))
          | AmountReceived \<Rightarrow>
              assert (phase deal = AmountSent) ''AmountReceived can be only be set after AmountSent''
          | SwapCompleted \<Rightarrow>
              bnd (assert (phase deal = AmountReceived) ''SwapCompleted can be only be set after AmountReceived'') (\<lambda>_.
              bnd (modify a (\<lambda>d. d\<lparr>competionTime := Some now\<rparr>)) (\<lambda>_.
              setDealState a Completed (''Swap completed. preimage = '' @ str (r_preimage deal))))) (\<lambda>_.
     bnd (modify a (\<lambda>d. d\<lparr>phase := newPhase\<rparr>)) (\<lambda>_.
     bnd (getObj a) (\<lambda>deal.
       if phase deal = AmountReceived then emit (swap_paid a (swapResult deal)) else ret ())))))"

section \<open>Completion and error packets\<close>

definition handleSwapComplete :: "string \<Rightarrow> number \<Rightarrow> unit action" where
  "handleSwapComplete h now =
     bnd (getDeal h) (\<lambda>found.
       case found of
         None \<Rightarrow> ret ()
       | Some deal \<Rightarrow> setDealPhase deal SwapCompleted now)"

definition handleSwapError :: "string \<Rightarrow> string \<Rightarrow> unit action" where
  "handleSwapError h errorMessage =
     bnd (getDeal h) (\<lambda>found.
       case found of
         None \<Rightarrow> ret ()
       | Some deal \<Rightarrow> setDealState deal Error errorMessage)"

section \<open>Amounts, pair support, setup verification\<close>

text \<open>
  \<open>calculateSwapAmounts\<close> returns \<open>{ takerAmount, makerAmount }\<close>, here as a pair;
  \<open>None\<close> where one of the three products is not finite.
\<close>

definition calculateSwapAmounts :: "number \<Rightarrow> number \<Rightarrow> (number \<times> number) option" where
  "calculateSwapAmounts quantity' price' =
     (if finite64 (mulJS quantity' price') \<and>
         finite64 (mulJS (mulJS quantity' price') 100000000) \<and>
         finite64 (mulJS quantity' 100000000)
      then
        (let takerAmount' = Math_round (mulJS (mulJS quantity' price') 100000000);
             makerAmount' = Math_round (mulJS quantity' 100000000)
         in Some (takerAmount', makerAmount'))
      else None)"

definition isPairSupported :: "LndClients \<Rightarrow> string \<Rightarrow> bool" where
  "isPairSupported cl pairId' =
     (pairId' = ''LTC/BTC'' \<and> isConnected (lndBtcClient cl) \<and> isConnected (lndLtcClient cl))"

definition sendErrorToPeer :: "Peer \<Rightarrow> string \<Rightarrow> string \<Rightarrow> string option \<Rightarrow> unit action" where
  "sendErrorToPeer peer h errorMessage reqId = sendPacket peer (SwapErrorPacket h errorMessage reqId)"

definition verifyLndSetup :: "LndClients \<Rightarrow> SwapDeal \<Rightarrow> Peer \<Rightarrow> string option" where
  "verifyLndSetup cl deal peer =
     (if \<not> truthyS (getLndPubKey peer (takerCurrency deal)) then
        Some (''peer did not provide an LND PubKey for '' @ takerCurrency deal)
      else if \<not> truthyS (getLndPubKey peer (makerCurrency deal)) then
        Some (''peer did not provide an LND PubKey for '' @ makerCurrency deal)
      else if \<not> isConnected (lndLtcClient cl) then
        Some ''Can not swap. Not connected to LTC network''
      else if \<not> isConnected (lndBtcClient cl) then
        Some ''Can not swap. Not connected to BTC network''
      else None)"

definition verifyExecution :: "LndClients \<Rightarrow> StampedPeerOrder \<Rightarrow> StampedOwnOrder \<Rightarrow> bool" where
  "verifyExecution cl maker taker =
     (if pairId_po maker \<noteq> pairId_oo taker \<or> \<not> isPairSupported cl (pairId_po maker) then False
      else True)"

section \<open>The taker: \<open>executeSwap\<close>, \<open>beginSwap\<close>, \<open>handleSwapResponse\<close>\<close>

text \<open>\<open>String.prototype.split\<close> with a one-character separator.\<close>

fun splitOn :: "char \<Rightarrow> string \<Rightarrow> string list" where
  "splitOn c [] = [[]]"
| "splitOn c (x # xs) =
     (if x = c then [] # splitOn c xs
      else (case splitOn c xs of w # ws \<Rightarrow> (x # w) # ws | [] \<Rightarrow> [[x]]))"

text \<open>
  \<open>beginSwap\<close> takes the peer that \<open>pool.getPeer\<close> finds, the 32 random bytes (in
  hexadecimal) and the SHA-256 function of the \<open>crypto\<close> module as arguments. It is
  private and called by \<open>executeSwap\<close> only, after \<open>verifyExecution\<close> has admitted the pair
  id \<open>LTC/BTC\<close>; a pair id without a separator, for which the source would go on with an
  \<open>undefined\<close> currency, is \<open>Unmodelled\<close>, and so are amounts that are not finite.
\<close>

definition beginSwap ::
  "LndClients \<Rightarrow> (string \<Rightarrow> string) \<Rightarrow> StampedPeerOrder \<Rightarrow> StampedOwnOrder \<Rightarrow> Peer \<Rightarrow> string \<Rightarrow>
   number \<Rightarrow> string option action" where
  "beginSwap cl sha256hex maker taker peer preimage now =
     (case splitOn CHR ''/'' (pairId_po maker) of
        baseCurrency # quoteCurrency # _ \<Rightarrow>
          (let (takerCurrency', makerCurrency') =
                 (if isBuy taker then (baseCurrency, quoteCurrency)
                  else (quoteCurrency, baseCurrency));
               takerCltvDelta' =
                 (if takerCurrency' = ''BTC'' then cltvDelta (lndBtcClient cl)
                  else if takerCurrency' = ''LTC'' then cltvDelta (lndLtcClient cl)
                  else 0)
           in case calculateSwapAmounts (quantity_oo taker) (price_po maker) of
                None \<Rightarrow> throw (Unmodelled ''Infinity or NaN'')
              | Some (takerAmount', makerAmount') \<Rightarrow>
                  (let swapRequestBody =
                         \<lparr>takerCurrency_rq = takerCurrency', makerCurrency_rq = makerCurrency',
                          takerAmount_rq = takerAmount', makerAmount_rq = makerAmount',
                          takerCltvDelta_rq = takerCltvDelta', r_hash_rq = sha256hex preimage,
                          orderId_rq = id_po maker, pairId_rq = pairId_po maker,
                          proposedQuantity_rq = quantity_oo taker\<rparr>;
                       deal =
                         \<lparr>myRole = Taker, phase = SwapCreated, state = Active, stateReason = [],
                          peerPubKey = nodePubKey peer, orderId = id_po maker,
                          localOrderId = localId_oo taker, proposedQuantity = quantity_oo taker,
                          quantity = None, pairId = pairId_po maker, takerAmount = takerAmount',
                          takerCurrency = takerCurrency', takerPubKey = None,
                          takerCltvDelta = takerCltvDelta', makerAmount = makerAmount',
                          makerCurrency = makerCurrency', makerCltvDelta = None,
                          price = price_po maker, r_hash = sha256hex preimage,
                          r_preimage = Some preimage, makerToTakerRoutes = None,
                          createTime = now, executeTime = None, competionTime = None\<rparr>
                   in bnd (newObj deal) (\<lambda>a.
                      bnd (addDeal a) (\<lambda>_.
                      bnd (getObj a) (\<lambda>deal.
                        case verifyLndSetup cl deal peer of
                          Some errMsg \<Rightarrow> bnd (setDealState a Error errMsg) (\<lambda>_. ret None)
                        | None \<Rightarrow>
                            bnd (sendPacket peer (SwapRequestPacket swapRequestBody)) (\<lambda>_.
                            bnd (setDealPhase a SwapRequested now) (\<lambda>_.
                            bnd (getObj a) (\<lambda>deal. ret (Some (r_hash deal))))))))))
      | _ \<Rightarrow> throw (Unmodelled ''pairId without a quote currency''))"

text \<open>
  \<open>executeSwap\<close>, up to the registration of its listeners: \<open>None\<close> is the rejected
  promise. The listeners resolve or reject the promise and touch no deal.
\<close>

definition executeSwap ::
  "LndClients \<Rightarrow> (string \<Rightarrow> string) \<Rightarrow> StampedPeerOrder \<Rightarrow> StampedOwnOrder \<Rightarrow> Peer \<Rightarrow> string \<Rightarrow>
   number \<Rightarrow> string option action" where
  "executeSwap cl sha256hex maker taker peer preimage now =
     (if \<not> verifyExecution cl maker taker then ret None
      else beginSwap cl sha256hex maker taker peer preimage now)"

text \<open>
  \<open>handleSwapResponse\<close> up to \<open>await cmdLnd.sendPaymentSync(request)\<close>. The \<open>try\<close> block
  starts before \<open>setDealPhase\<close>, so an assertion that fails there is caught.
\<close>

definition handleSwapResponse_catch :: "ref \<Rightarrow> Peer \<Rightarrow> string \<Rightarrow> exn \<Rightarrow> unit action" where
  "handleSwapResponse_catch a peer h err =
     bnd (setDealState a Error (message err)) (\<lambda>_.
     sendErrorToPeer peer h (message err) None)"

definition handleSwapResponse_1 ::
  "SwapResponsePacketBody option \<Rightarrow> Peer \<Rightarrow> number \<Rightarrow>
   (unit, ref \<times> client \<times> SendRequest) suspended action" where
  "handleSwapResponse_1 body peer now =
     bnd (assert (body \<noteq> None) ''SwapResponsePacket does not contain a body'') (\<lambda>_.
     (case body of
        None \<Rightarrow> ret (Return ())
      | Some b \<Rightarrow>
          bnd (getDeal (r_hash_rs b)) (\<lambda>found.
            case found of
              None \<Rightarrow> ret (Return ())
            | Some a \<Rightarrow>
                bnd (modify a (\<lambda>d. d\<lparr>makerCltvDelta := makerCltvDelta_rs b\<rparr>)) (\<lambda>_.
                bnd (if truthyN (quantity_rs b) then modify a (\<lambda>d. d\<lparr>quantity := quantity_rs b\<rparr>)
                     else ret ()) (\<lambda>_.
                bnd (getObj a) (\<lambda>deal.
                  (case (if makerCurrency deal = ''BTC'' then Some BtcClient
                         else if makerCurrency deal = ''LTC'' then Some LtcClient
                         else None) of
                     None \<Rightarrow> ret (Return ())
                   | Some cmdLnd \<Rightarrow>
                       (let request =
                              \<lparr>amt = makerAmount deal,
                               destString = getLndPubKey peer (makerCurrency deal),
                               paymentHashString = r_hash deal,
                               finalCltvDelta = makerCltvDelta deal\<rparr>
                        in catch
                             (bnd (setDealPhase a AmountSent now) (\<lambda>_.
                              ret (Awaiting (a, cmdLnd, request))))
                             (\<lambda>err. bnd (handleSwapResponse_catch a peer (r_hash_rs b) err) (\<lambda>_.
                                    ret (Return ())))))))))))"

text \<open>
  \<open>handleSwapResponse\<close> from the answer of \<open>sendPaymentSync\<close> on: \<open>Inl\<close> the message of
  what the call threw, \<open>Inr\<close> its response.
\<close>

definition handleSwapResponse_2 ::
  "ref \<Rightarrow> string \<Rightarrow> Peer \<Rightarrow> string + SendResponse \<Rightarrow> number \<Rightarrow> unit action" where
  "handleSwapResponse_2 a h peer answer now =
     catch
       (case answer of
          Inl thrown \<Rightarrow> throw (JsError thrown)
        | Inr sendPaymentResponse \<Rightarrow>
            if paymentError sendPaymentResponse \<noteq> [] then
              throw (JsError (paymentError sendPaymentResponse))
            else
              bnd (setDealPhase a SwapCompleted now) (\<lambda>_.
              sendPacket peer (SwapCompletePacket h)))
       (\<lambda>err. handleSwapResponse_catch a peer h err)"

section \<open>The maker: \<open>acceptDeal\<close>\<close>

text \<open>\<open>acceptDeal\<close> up to \<open>await lndclient.queryRoutes(req)\<close>.\<close>

definition acceptDeal_fail :: "ref \<Rightarrow> Peer \<Rightarrow> string \<Rightarrow> string \<Rightarrow> unit action" where
  "acceptDeal_fail a peer reqId reason =
     bnd (setDealState a Error reason) (\<lambda>_.
     bnd (getObj a) (\<lambda>deal.
     sendErrorToPeer peer (r_hash deal) (stateReason deal) (Some reqId)))"

definition acceptDeal_1 ::
  "LndClients \<Rightarrow> OrderToAccept \<Rightarrow> SwapRequestPacketBody \<Rightarrow> string \<Rightarrow> Peer \<Rightarrow> number \<Rightarrow>
   (bool, ref \<times> client \<times> QueryRoutesRequest) suspended action" where
  "acceptDeal_1 cl orderToAccept requestBody reqId peer now =
     (let takerPubKey' = getLndPubKey peer (takerCurrency_rq requestBody);
          deal =
            \<lparr>myRole = Maker, phase = SwapCreated, state = Active, stateReason = [],
             peerPubKey = nodePubKey peer, orderId = orderId_rq requestBody,
             localOrderId = localId_ota orderToAccept,
             proposedQuantity = proposedQuantity_rq requestBody,
             quantity = Some (quantityToAccept orderToAccept), pairId = pairId_rq requestBody,
             takerAmount = takerAmount_rq requestBody,
             takerCurrency = takerCurrency_rq requestBody, takerPubKey = takerPubKey',
             takerCltvDelta = takerCltvDelta_rq requestBody,
             makerAmount = makerAmount_rq requestBody,
             makerCurrency = makerCurrency_rq requestBody, makerCltvDelta = None,
             price = price_ota orderToAccept, r_hash = r_hash_rq requestBody,
             r_preimage = None, makerToTakerRoutes = None, createTime = now,
             executeTime = None, competionTime = None\<rparr>
      in bnd (newObj deal) (\<lambda>a.
         bnd (addDeal a) (\<lambda>_.
         bnd (getObj a) (\<lambda>deal.
           case verifyLndSetup cl deal peer of
             Some errMsg \<Rightarrow> bnd (acceptDeal_fail a peer reqId errMsg) (\<lambda>_. ret (Return False))
           | None \<Rightarrow>
               (case (if takerCurrency deal = ''BTC'' then Some BtcClient
                      else if takerCurrency deal = ''LTC'' then Some LtcClient
                      else None) of
                  None \<Rightarrow>
                    bnd (acceptDeal_fail a peer reqId ''Can not swap. Unsupported taker currency.'') (\<lambda>_.
                    ret (Return False))
                | Some lndclient \<Rightarrow>
                    ret (Awaiting (a, lndclient,
                      \<lparr>amt_q = takerAmount_rq requestBody,
                       finalCltvDelta_q = takerCltvDelta_rq requestBody, numRoutes = 1,
                       pubKey_q = getLndPubKey peer (takerCurrency_rq requestBody)\<rparr>)))))))"

text \<open>
  From the answer of \<open>queryRoutes\<close> up to \<open>await lndclient.getInfo()\<close>. The \<open>try\<close> block
  holds the check of the number of routes, so what \<open>setDealState\<close> throws there is caught
  by the same \<open>catch\<close>.
\<close>

definition acceptDeal_2 ::
  "ref \<Rightarrow> client \<Rightarrow> string \<Rightarrow> Peer \<Rightarrow> string + Route list \<Rightarrow> (bool, ref \<times> client) suspended action" where
  "acceptDeal_2 a lndclient reqId peer answer =
     catch
       (case answer of
          Inl thrown \<Rightarrow> throw (JsError thrown)
        | Inr routes \<Rightarrow>
            bnd (modify a (\<lambda>d. d\<lparr>makerToTakerRoutes := Some routes\<rparr>)) (\<lambda>_.
            if length routes = 0 then
              bnd (acceptDeal_fail a peer reqId ''Can not swap. unable to find route to destination.'') (\<lambda>_.
              ret (Return False))
            else ret (Awaiting (a, lndclient))))
       (\<lambda>err.
          bnd (acceptDeal_fail a peer reqId
                 (''Can not swap. unable to find route to destination: '' @ message err)) (\<lambda>_.
          ret (Return False)))"

text \<open>
  From the answer of \<open>getInfo\<close> to the end. The comment at the division says that neither
  client has a \<open>cltvDelta\<close> of zero; where a divisor is zero or a result is not finite,
  JavaScript goes on with \<open>Infinity\<close> or \<open>NaN\<close>, and the model stops.
\<close>

definition acceptDeal_3 ::
  "LndClients \<Rightarrow> ref \<Rightarrow> SwapRequestPacketBody \<Rightarrow> string \<Rightarrow> Peer \<Rightarrow> string + number \<Rightarrow> number \<Rightarrow>
   bool action" where
  "acceptDeal_3 cl a requestBody reqId peer answer now =
     (case answer of
        Inl thrown \<Rightarrow>
          bnd (acceptDeal_fail a peer reqId (''Can not swap. Unable to fetch block height: '' @ thrown)) (\<lambda>_.
          ret False)
      | Inr height \<Rightarrow>
          bnd (getObj a) (\<lambda>deal.
            case makerToTakerRoutes deal of
              Some (route # _) \<Rightarrow>
                bnd (finiteNumber (subJS (totalTimeLock route) height)) (\<lambda>routeCltvDelta.
                if cltvDelta (lndBtcClient cl) = 0 then throw (Unmodelled ''division by zero'')
                else
                  bnd (finiteNumber
                         (divJS (cltvDelta (lndLtcClient cl)) (cltvDelta (lndBtcClient cl)))) (\<lambda>cltvDeltaFactor.
                  bnd (if makerCurrency_rq requestBody = ''BTC'' then
                         if cltvDeltaFactor = 0 then throw (Unmodelled ''division by zero'')
                         else
                           bnd (finiteNumber (divJS routeCltvDelta cltvDeltaFactor)) (\<lambda>scaled.
                           bnd (finiteNumber (addJS (cltvDelta (lndBtcClient cl)) scaled)) (\<lambda>delta.
                           modify a (\<lambda>d. d\<lparr>makerCltvDelta := Some delta\<rparr>)))
                       else if makerCurrency_rq requestBody = ''LTC'' then
                         bnd (finiteNumber (mulJS routeCltvDelta cltvDeltaFactor)) (\<lambda>scaled.
                         bnd (finiteNumber (addJS (cltvDelta (lndLtcClient cl)) scaled)) (\<lambda>delta.
                         modify a (\<lambda>d. d\<lparr>makerCltvDelta := Some delta\<rparr>)))
                       else ret ()) (\<lambda>_.
                  bnd (getObj a) (\<lambda>deal.
                  bnd (sendPacket peer
                         (SwapResponsePacket
                            \<lparr>makerCltvDelta_rs = makerCltvDelta deal,
                             r_hash_rs = r_hash_rq requestBody,
                             quantity_rs = Some (proposedQuantity_rq requestBody)\<rparr>
                            reqId)) (\<lambda>_.
                  bnd (setDealPhase a SwapAgreed now) (\<lambda>_.
                  ret True))))))
            | _ \<Rightarrow> throw (JsError ''TypeError: Cannot read property getTotalTimeLock of undefined'')))"

section \<open>The preimage resolver\<close>

text \<open>\<open>cltvDelta > x\<close> where \<open>cltvDelta\<close> may be \<open>undefined\<close>: the comparison is then false.\<close>

fun greaterU :: "number option \<Rightarrow> number \<Rightarrow> bool" where
  "greaterU None x = False"
| "greaterU (Some c) x = (c > x)"

definition validateRequest :: "ref \<Rightarrow> ResolveRequest \<Rightarrow> bool action" where
  "validateRequest a resolveRequest =
     bnd (getObj a) (\<lambda>deal.
       (let amount' = amount resolveRequest;
            (expectedAmount, cltvDelta', source, destination) =
               (case myRole deal of
                  Maker \<Rightarrow> (makerAmount deal, makerCltvDelta deal, ''Taker'', ''Maker'')
                | Taker \<Rightarrow> (takerAmount deal, Some (takerCltvDelta deal), ''Maker'', ''Taker''))
        in bnd (finiteNumber (mulJS expectedAmount 1000)) (\<lambda>expectedAmount.
           if amount' < expectedAmount then
             bnd (setDealState a Error
                    (''Amount sent from '' @ source @ '' to '' @ ''destination'' @ ''is too small'')) (\<lambda>_.
             ret False)
           else
             bnd (finiteNumber (subJS (timeout resolveRequest) (heightNow resolveRequest))) (\<lambda>remaining.
             if greaterU cltvDelta' remaining then
               bnd (setDealState a Error
                      (''cltvDelta sent from '' @ source @ '' to '' @ ''destination'' @ ''is too small'')) (\<lambda>_.
               ret False)
             else ret True))))"

text \<open>
  \<open>resolveHash\<close> up to \<open>await cmdLnd.sendToRouteSync(request)\<close> (the maker), or to its end
  (the taker, and every failure). The result is the string handed back to the chain
  client, \<open>None\<close> for \<open>undefined\<close>.
\<close>

definition resolveHash_catch :: "ref \<Rightarrow> exn \<Rightarrow> string option action" where
  "resolveHash_catch a err =
     bnd (setDealState a Error (message err)) (\<lambda>_.
     ret (Some (''Got exception from sendPaymentSync'' @ message err)))"

definition resolveHash_1 ::
  "ResolveRequest \<Rightarrow> number \<Rightarrow> (string option, ref \<times> client \<times> SendToRouteRequest) suspended action" where
  "resolveHash_1 resolveRequest now =
     bnd (getDeal (hash resolveRequest)) (\<lambda>found.
       case found of
         None \<Rightarrow>
           ret (Return (Some (''Something went wrong. Can't find deal: '' @ hash resolveRequest)))
       | Some a \<Rightarrow>
           bnd (validateRequest a resolveRequest) (\<lambda>valid.
             if \<not> valid then bnd (getObj a) (\<lambda>deal. ret (Return (Some (stateReason deal))))
             else
               bnd (getObj a) (\<lambda>deal.
                 if myRole deal = Maker then
                   (let cmdLnd =
                          (if makerCurrency deal = ''BTC'' then LtcClient
                           else if makerCurrency deal = ''LTC'' then BtcClient
                           else LtcClient);
                        request =
                          \<lparr>routesList = makerToTakerRoutes deal, paymentHashString_r = r_hash deal\<rparr>
                    in catch
                         (bnd (setDealPhase a AmountSent now) (\<lambda>_.
                          ret (Awaiting (a, cmdLnd, request))))
                         (\<lambda>err. bnd (resolveHash_catch a err) (\<lambda>r. ret (Return r))))
                 else
                   bnd (setDealPhase a AmountReceived now) (\<lambda>_.
                   bnd (getObj a) (\<lambda>deal. ret (Return (r_preimage deal)))))))"

text \<open>The maker's \<open>resolveHash\<close> from the answer of \<open>sendToRouteSync\<close> on.\<close>

definition resolveHash_2 :: "ref \<Rightarrow> string + SendResponse \<Rightarrow> number \<Rightarrow> string option action" where
  "resolveHash_2 a answer now =
     catch
       (case answer of
          Inl thrown \<Rightarrow> throw (JsError thrown)
        | Inr response \<Rightarrow>
            if paymentError response \<noteq> [] then
              bnd (setDealState a Error (paymentError response)) (\<lambda>_.
              ret (Some (paymentError response)))
            else
              bnd (modify a (\<lambda>d. d\<lparr>r_preimage := Some (paymentPreimage response)\<rparr>)) (\<lambda>_.
              bnd (setDealPhase a AmountReceived now) (\<lambda>_.
              bnd (getObj a) (\<lambda>deal. ret (r_preimage deal)))))
       (\<lambda>err. resolveHash_catch a err)"

section \<open>Scenarios\<close>

text \<open>
  The concrete runs used below. The taker fills the maker order \<open>O1\<close> of pair
  \<open>LTC/BTC\<close> at price 0.01 (the double nearest to it) with quantity 1; the chain
  clients are configured with \<open>cltvDelta\<close> 40 (BTC) and 576 (LTC). \<open>stubHash\<close> stands
  for SHA-256.
\<close>

definition clients :: LndClients where
  "clients = \<lparr>lndBtcClient = \<lparr>isConnected = True, cltvDelta = 40\<rparr>,
              lndLtcClient = \<lparr>isConnected = True, cltvDelta = 576\<rparr>\<rparr>"

definition stubHash :: "string \<Rightarrow> string" where
  "stubHash p = ''h'' @ p"

definition peerP :: Peer where
  "peerP = \<lparr>nodePubKey = ''P'', getLndPubKey = map_of [(''BTC'', ''Pbtc''), (''LTC'', ''Pltc'')]\<rparr>"

definition peerT :: Peer where
  "peerT = \<lparr>nodePubKey = ''T'', getLndPubKey = map_of [(''BTC'', ''Tbtc''), (''LTC'', ''Tltc'')]\<rparr>"

definition makerOrder :: StampedPeerOrder where
  "makerOrder = \<lparr>id_po = ''O1'', pairId_po = ''LTC/BTC'', price_po = binary64 (1 / 100), peerPubKey_po = ''P''\<rparr>"

definition takerOrder :: StampedOwnOrder where
  "takerOrder = \<lparr>localId_oo = ''L1'', pairId_oo = ''LTC/BTC'', quantity_oo = 1, isBuy = True\<rparr>"

text \<open>The taker's node: the swap is requested, agreed, paid and completed.\<close>

definition taker1 :: Swaps where
  "taker1 = snd (executeSwap clients stubHash makerOrder takerOrder peerP ''aa'' 1 initial)"

definition response1 :: SwapResponsePacketBody where
  "response1 = \<lparr>makerCltvDelta_rs = Some 50, r_hash_rs = ''haa'', quantity_rs = Some 1\<rparr>"

definition taker2 :: Swaps where
  "taker2 = snd (handleSwapResponse_1 (Some response1) peerP 2 taker1)"

definition resolve1 :: ResolveRequest where
  "resolve1 = \<lparr>hash = ''haa'', amount = 1000000000, timeout = 600, heightNow = 0\<rparr>"

definition taker3 :: Swaps where
  "taker3 = snd (resolveHash_1 resolve1 3 taker2)"

definition taker4 :: Swaps where
  "taker4 = snd (handleSwapResponse_2 0 ''haa'' peerP
                   (Inr \<lparr>paymentError = [], paymentPreimage = ''aa''\<rparr>) 4 taker3)"

text \<open>
  The maker's node: the request is accepted over one route of total timelock 144 at
  height 0, the taker's payment is forwarded, and then the peer reports an error.
\<close>

definition request1 :: SwapRequestPacketBody where
  "request1 = \<lparr>takerCurrency_rq = ''LTC'', makerCurrency_rq = ''BTC'',
               takerAmount_rq = 1000000, makerAmount_rq = 100000000,
               takerCltvDelta_rq = 576, r_hash_rq = ''haa'',
               orderId_rq = ''O1'', pairId_rq = ''LTC/BTC'',
               proposedQuantity_rq = 1\<rparr>"

definition accept1 :: OrderToAccept where
  "accept1 = \<lparr>quantityToAccept = 1, price_ota = binary64 (1 / 100), localId_ota = ''M1''\<rparr>"

definition maker1 :: Swaps where
  "maker1 = snd (acceptDeal_1 clients accept1 request1 ''r1'' peerT 1 initial)"

definition maker2 :: Swaps where
  "maker2 = snd (acceptDeal_2 0 LtcClient ''r1'' peerT (Inr [\<lparr>totalTimeLock = 144\<rparr>]) maker1)"

definition maker3 :: Swaps where
  "maker3 = snd (acceptDeal_3 clients 0 request1 ''r1'' peerT (Inr 0) 3 maker2)"

definition resolve2 :: ResolveRequest where
  "resolve2 = \<lparr>hash = ''haa'', amount = 100000000000, timeout = 90, heightNow = 0\<rparr>"

definition maker4 :: Swaps where
  "maker4 = snd (resolveHash_1 resolve2 4 maker3)"

definition maker5 :: Swaps where
  "maker5 = snd (resolveHash_2 0 (Inr \<lparr>paymentError = [], paymentPreimage = ''aa''\<rparr>) 5 maker4)"

definition maker6 :: Swaps where
  "maker6 = snd (handleSwapError ''haa'' ''boom'' maker5)"

text \<open>Answers and requests that a peer or a chain client can make in these runs.\<close>

definition tooSmall :: ResolveRequest where
  "tooSmall = \<lparr>hash = ''haa'', amount = 999999999, timeout = 600, heightNow = 0\<rparr>"

definition wrongPreimage :: SendResponse where
  "wrongPreimage = \<lparr>paymentError = [], paymentPreimage = ''bb''\<rparr>"

definition response_more :: SwapResponsePacketBody where
  "response_more = \<lparr>makerCltvDelta_rs = Some 50, r_hash_rs = ''haa'', quantity_rs = Some 2\<rparr>"

definition response_zero :: SwapResponsePacketBody where
  "response_zero = \<lparr>makerCltvDelta_rs = Some 50, r_hash_rs = ''haa'', quantity_rs = Some 0\<rparr>"

definition response_half :: SwapResponsePacketBody where
  "response_half = \<lparr>makerCltvDelta_rs = Some 50, r_hash_rs = ''haa'', quantity_rs = Some (1 / 2)\<rparr>"

definition send1 :: SendRequest where
  "send1 = \<lparr>amt = 100000000, destString = Some ''Pbtc'', paymentHashString = ''haa'',
            finalCltvDelta = Some 50\<rparr>"

text \<open>A request whose amounts do not belong to its quantity, and the maker's node that accepts it.\<close>

definition request_odd :: SwapRequestPacketBody where
  "request_odd = \<lparr>takerCurrency_rq = ''LTC'', makerCurrency_rq = ''BTC'',
               takerAmount_rq = 1000000, makerAmount_rq = 5,
               takerCltvDelta_rq = 576, r_hash_rq = ''hbb'',
               orderId_rq = ''O1'', pairId_rq = ''LTC/BTC'',
               proposedQuantity_rq = 1\<rparr>"

definition maker_odd :: Swaps where
  "maker_odd = snd (acceptDeal_1 clients accept1 request_odd ''r3'' peerT 1 initial)"

text \<open>
  The deal objects that the two runs create, as \<open>beginSwap\<close> and \<open>acceptDeal\<close> leave them
  before the first change of phase; the states of the runs are stated with them below.
\<close>

definition takerDeal :: SwapDeal where
  "takerDeal =
     \<lparr>myRole = Taker, phase = SwapCreated, state = Active, stateReason = [],
      peerPubKey = ''P'', orderId = ''O1'', localOrderId = ''L1'', proposedQuantity = 1,
      quantity = None, pairId = ''LTC/BTC'', takerAmount = 1000000, takerCurrency = ''LTC'',
      takerPubKey = None, takerCltvDelta = 576, makerAmount = 100000000,
      makerCurrency = ''BTC'', makerCltvDelta = None, price = binary64 (1 / 100),
      r_hash = ''haa'', r_preimage = Some ''aa'', makerToTakerRoutes = None, createTime = 1,
      executeTime = None, competionTime = None\<rparr>"

definition makerDeal :: SwapDeal where
  "makerDeal =
     \<lparr>myRole = Maker, phase = SwapCreated, state = Active, stateReason = [],
      peerPubKey = ''T'', orderId = ''O1'', localOrderId = ''M1'', proposedQuantity = 1,
      quantity = Some 1, pairId = ''LTC/BTC'', takerAmount = 1000000, takerCurrency = ''LTC'',
      takerPubKey = Some ''Tltc'', takerCltvDelta = 576, makerAmount = 100000000,
      makerCurrency = ''BTC'', makerCltvDelta = None, price = binary64 (1 / 100),
      r_hash = ''haa'', r_preimage = None, makerToTakerRoutes = None, createTime = 1,
      executeTime = None, competionTime = None\<rparr>"

section \<open>Vocabulary of the properties\<close>

text \<open>
  What an inbound HTLC is checked against: the amount the local role expects, in msat
  (the product as JavaScript computes it), and the CLTV delta it requires (for the maker an optional field of the deal). A
  second reason given to a deal in state \<open>Error\<close> is appended to the first.
\<close>

definition expectedAmountMsat :: "SwapDeal \<Rightarrow> number" where
  "expectedAmountMsat d =
     mulJS (case myRole d of Maker \<Rightarrow> makerAmount d | Taker \<Rightarrow> takerAmount d) 1000"

definition requiredCltvDelta :: "SwapDeal \<Rightarrow> number option" where
  "requiredCltvDelta d = (case myRole d of Maker \<Rightarrow> makerCltvDelta d | Taker \<Rightarrow> Some (takerCltvDelta d))"

definition timelockTooShort :: "SwapDeal \<Rightarrow> ResolveRequest \<Rightarrow> bool" where
  "timelockTooShort d rr =
     (case requiredCltvDelta d of
        None \<Rightarrow> False
      | Some c \<Rightarrow> subJS (timeout rr) (heightNow rr) < c)"

definition sender :: "SwapDeal \<Rightarrow> string" where
  "sender d = (case myRole d of Maker \<Rightarrow> ''Taker'' | Taker \<Rightarrow> ''Maker'')"

definition aggregated :: "SwapDeal \<Rightarrow> string \<Rightarrow> string" where
  "aggregated d reason = (if state d = Error then stateReason d @ ''; '' @ reason else reason)"

section \<open>The node as a transition system\<close>

text \<open>
  A step is one uninterrupted piece of a method that the pool, the order book or a chain
  client starts or resumes: a whole synchronous method, or an \<open>async\<close> method from its
  start or from an answer to its next \<open>await\<close>. The arguments and the answers are
  arbitrary, and a suspended method may be resumed for any deal object that exists: the
  runs of the relation include every run of the event loop. (\<open>getDeal\<close>, \<open>addDeal\<close> and
  \<open>removeDeal\<close> are public, but nothing in the sources calls them from outside.)
\<close>

inductive step :: "Swaps \<Rightarrow> Swaps \<Rightarrow> bool" where
  executeSwap_step:
    "step s (snd (executeSwap cl sha256hex maker taker peer preimage now s))"
| acceptDeal_1_step:
    "step s (snd (acceptDeal_1 cl orderToAccept requestBody reqId peer now s))"
| acceptDeal_2_step:
    "a < length (objs s) \<Longrightarrow> step s (snd (acceptDeal_2 a lndclient reqId peer routesAnswer s))"
| acceptDeal_3_step:
    "a < length (objs s) \<Longrightarrow> step s (snd (acceptDeal_3 cl a requestBody reqId peer infoAnswer now s))"
| handleSwapResponse_1_step:
    "step s (snd (handleSwapResponse_1 body peer now s))"
| handleSwapResponse_2_step:
    "a < length (objs s) \<Longrightarrow> step s (snd (handleSwapResponse_2 a h peer sendAnswer now s))"
| resolveHash_1_step:
    "step s (snd (resolveHash_1 resolveRequest now s))"
| resolveHash_2_step:
    "a < length (objs s) \<Longrightarrow> step s (snd (resolveHash_2 a sendAnswer now s))"
| handleSwapComplete_step:
    "step s (snd (handleSwapComplete h now s))"
| handleSwapError_step:
    "step s (snd (handleSwapError h errorMessage s))"

definition reachable :: "Swaps \<Rightarrow> bool" where
  "reachable s = rtranclp step initial s"

text \<open>How often \<open>swap.paid\<close> and \<open>swap.failed\<close> have been emitted for a deal.\<close>

definition paidCount :: "ref \<Rightarrow> Swaps \<Rightarrow> nat" where
  "paidCount a s =
     length (filter (\<lambda>e. case e of swap_paid b _ \<Rightarrow> b = a | swap_failed _ \<Rightarrow> False) (emitted s))"

definition failedCount :: "ref \<Rightarrow> Swaps \<Rightarrow> nat" where
  "failedCount a s = length (filter (\<lambda>e. e = swap_failed a) (emitted s))"

section \<open>Predicates of the invariant proofs\<close>

text \<open>
  \<open>keeps P m\<close>: the method \<open>m\<close> leaves a state in which \<open>P\<close> holds whenever it starts in
  one, whether it returns or throws. \<open>primsKeep P a\<close>: so do the operations through which
  the methods write to the deal \<open>a\<close>, namely \<open>setDealState\<close> to \<open>Error\<close>, \<open>setDealPhase\<close>,
  an assignment to a field other than those listed in \<open>fieldsKept\<close>, and sending a
  packet. \<open>newDealOK\<close> is what holds of a deal that \<open>beginSwap\<close> or \<open>acceptDeal\<close> creates.
\<close>

definition keeps :: "(Swaps \<Rightarrow> bool) \<Rightarrow> 'a action \<Rightarrow> bool" where
  "keeps P m = (\<forall>s. P s \<longrightarrow> P (snd (m s)))"

definition fieldsKept :: "(SwapDeal \<Rightarrow> SwapDeal) \<Rightarrow> bool" where
  "fieldsKept f =
     (\<forall>d. state (f d) = state d \<and> phase (f d) = phase d \<and> myRole (f d) = myRole d \<and>
          makerAmount (f d) = makerAmount d \<and> takerAmount (f d) = takerAmount d \<and>
          price (f d) = price d \<and> proposedQuantity (f d) = proposedQuantity d)"

definition primsKeep :: "(Swaps \<Rightarrow> bool) \<Rightarrow> ref \<Rightarrow> bool" where
  "primsKeep P a =
     ((\<forall>r. keeps P (setDealState a Error r)) \<and>
      (\<forall>p now. keeps P (setDealPhase a p now)) \<and>
      (\<forall>f. fieldsKept f \<longrightarrow> keeps P (modify a f)) \<and>
      (\<forall>peer p. keeps P (sendPacket peer p)))"

definition newDealOK :: "SwapDeal \<Rightarrow> bool" where
  "newDealOK d =
     (state d = Active \<and> phase d = SwapCreated \<and>
      (if myRole d = Taker then
         calculateSwapAmounts (proposedQuantity d) (price d) = Some (takerAmount d, makerAmount d)
       else True))"

text \<open>
  What one of these operations on the deal \<open>a\<close> may change (\<open>touches\<close>), and, when \<open>a\<close>
  exists, how it moves the deal and the event log together (\<open>advances\<close>).
\<close>

definition touches :: "ref \<Rightarrow> Swaps \<Rightarrow> Swaps \<Rightarrow> bool" where
  "touches a s s' =
     (deals s' = deals s \<and> length (objs s') = length (objs s) \<and>
      (\<forall>b. b \<noteq> a \<longrightarrow> objs s' ! b = objs s ! b) \<and>
      myRole (objs s' ! a) = myRole (objs s ! a) \<and>
      makerAmount (objs s' ! a) = makerAmount (objs s ! a) \<and>
      takerAmount (objs s' ! a) = takerAmount (objs s ! a) \<and>
      price (objs s' ! a) = price (objs s ! a) \<and>
      proposedQuantity (objs s' ! a) = proposedQuantity (objs s ! a) \<and>
      (state (objs s ! a) = Active \<or>
       phase (objs s' ! a) = phase (objs s ! a) \<and> state (objs s' ! a) = state (objs s ! a)))"

definition dealEventsOK :: "ref \<Rightarrow> Swaps \<Rightarrow> bool" where
  "dealEventsOK a s =
     (failedCount a s = (if state (objs s ! a) = Error then 1 else 0) \<and>
      paidCount a s =
        (if phase (objs s ! a) = AmountReceived \<or> phase (objs s ! a) = SwapCompleted
         then 1 else 0) \<and>
      (state (objs s ! a) = Completed) = (phase (objs s ! a) = SwapCompleted))"

definition advances :: "ref \<Rightarrow> Swaps \<Rightarrow> Swaps \<Rightarrow> bool" where
  "advances a s s' =
     (deals s' = deals s \<and> length (objs s') = length (objs s) \<and>
      (\<forall>b. b \<noteq> a \<longrightarrow>
           objs s' ! b = objs s ! b \<and> failedCount b s' = failedCount b s \<and>
           paidCount b s' = paidCount b s) \<and>
      (dealEventsOK a s \<longrightarrow> dealEventsOK a s'))"

text \<open>
  The three invariants: a deal that has left \<open>Active\<close> keeps its phase and state; a
  taker's deal keeps the amounts computed from the proposed quantity; the events emitted
  for a deal are determined by its state and phase (and the registry and the event log
  refer to existing deals only).
\<close>

definition frozenAt :: "ref \<Rightarrow> SwapDealPhase \<Rightarrow> SwapDealState \<Rightarrow> Swaps \<Rightarrow> bool" where
  "frozenAt a ph st s = (a < length (objs s) \<and> phase (objs s ! a) = ph \<and> state (objs s ! a) = st)"

definition amountsOK :: "SwapDeal \<Rightarrow> bool" where
  "amountsOK d =
     (calculateSwapAmounts (proposedQuantity d) (price d) = Some (takerAmount d, makerAmount d))"

definition takerAmountsInv :: "Swaps \<Rightarrow> bool" where
  "takerAmountsInv s = list_all (\<lambda>d. myRole d = Maker \<or> amountsOK d) (objs s)"

definition eventsInv :: "Swaps \<Rightarrow> bool" where
  "eventsInv s =
     ((\<forall>h a. deals s h = Some a \<longrightarrow> a < length (objs s)) \<and>
      (\<forall>a. if a < length (objs s) then dealEventsOK a s
           else failedCount a s = 0 \<and> paidCount a s = 0))"


section \<open>Evaluation of the rounding\<close>

text \<open>
  \<open>binary64\<close> computed on the numerator and the denominator of its argument. The
  comparison with a power of two, the division by one, and the rounding of a quotient
  of integers are each the integer computation of \<open>b64_exp\<close>, \<open>b64_scaled\<close> and
  \<open>b64_round\<close>.
\<close>

lemma less_powi:
  assumes "0 < q"
  shows "((of_int p / of_int q :: rat) < 2 powi e) =
         (if 0 \<le> e then p < q * 2 ^ nat e else p * 2 ^ nat (- e) < q)"
proof (cases "0 \<le> e")
  case True
  have "((of_int p / of_int q :: rat) < of_int (2 ^ nat e)) = (of_int p < (of_int (2 ^ nat e) * of_int q :: rat))"
    using assms by (simp add: pos_divide_less_eq)
  also have "\<dots> = (p < 2 ^ nat e * q)"
    by (simp only: of_int_mult [symmetric] of_int_less_iff)
  finally show ?thesis
    using True by (simp add: power_int_def mult.commute)
next
  case False
  have "((of_int p / of_int q :: rat) < 1 / of_int (2 ^ nat (- e))) =
        ((of_int p * of_int (2 ^ nat (- e)) :: rat) < of_int q)"
    using assms by (simp add: field_simps)
  also have "\<dots> = (p * 2 ^ nat (- e) < q)"
    by (simp only: of_int_mult [symmetric] of_int_less_iff)
  finally show ?thesis
    using False by (simp add: power_int_def power_one_over)
qed

lemma divide_powi:
  "(of_int p / of_int q :: rat) / 2 powi k =
     (if 0 \<le> k then of_int p / of_int (q * 2 ^ nat k)
      else of_int (p * 2 ^ nat (- k)) / of_int q)"
  by (simp add: power_int_def field_simps)

lemma round_int:
  assumes "0 < d"
  shows "(let m = (of_int n / of_int d :: rat); f = \<lfloor>m\<rfloor>
          in if m - of_int f < 1 / 2 then f
             else if 1 / 2 < m - of_int f then f + 1
             else if even f then f else f + 1) = b64_round n d"
proof -
  have fl: "\<lfloor>(of_int n / of_int d :: rat)\<rfloor> = n div d"
    by (rule floor_divide_of_int_eq)
  have "(of_int n :: rat) = of_int (n div d) * of_int d + of_int (n mod d)"
    by (simp only: of_int_mult [symmetric] of_int_add [symmetric]) simp
  with assms have rest: "(of_int n / of_int d :: rat) - of_int (n div d) = of_int (n mod d) / of_int d"
    by (simp add: field_simps)
  have lt: "((of_int (n mod d) / of_int d :: rat) < 1 / 2) = (2 * (n mod d) < d)"
  proof -
    have "((of_int (n mod d) / of_int d :: rat) < 1 / 2) = ((of_int (2 * (n mod d)) :: rat) < of_int d)"
      using assms by (simp add: field_simps)
    then show ?thesis
      by (simp only: of_int_less_iff)
  qed
  have gt: "(1 / 2 < (of_int (n mod d) / of_int d :: rat)) = (d < 2 * (n mod d))"
  proof -
    have "(1 / 2 < (of_int (n mod d) / of_int d :: rat)) = ((of_int d :: rat) < of_int (2 * (n mod d)))"
      using assms by (simp add: field_simps)
    then show ?thesis
      by (simp only: of_int_less_iff)
  qed
  show ?thesis
    unfolding Let_def fl rest lt gt b64_round_def ..
qed

lemma binary64_abs:
  assumes "0 < p" and "0 < q"
  shows "(let a = (of_int p / of_int q :: rat);
              e0 = bitlen p - bitlen q;
              e = (if a < 2 powi e0 then e0 - 1 else e0);
              ulp = 2 powi (max (e - 52) (- 1074));
              m = a / ulp;
              f = \<lfloor>m\<rfloor>;
              r = (if m - of_int f < 1 / 2 then f
                   else if 1 / 2 < m - of_int f then f + 1
                   else if even f then f else f + 1)
          in of_int r * ulp) = b64_abs p q"
proof -
  define k where "k = max (b64_exp p q (bitlen p - bitlen q) - 52) (- 1074)"
  have e: "(if (of_int p / of_int q :: rat) < 2 powi (bitlen p - bitlen q)
            then bitlen p - bitlen q - 1 else bitlen p - bitlen q) =
           b64_exp p q (bitlen p - bitlen q)"
    unfolding b64_exp_def less_powi [OF assms(2)] ..
  have "(let m = (of_int p / of_int q :: rat) / 2 powi k; f = \<lfloor>m\<rfloor>;
             r = (if m - of_int f < 1 / 2 then f
                  else if 1 / 2 < m - of_int f then f + 1
                  else if even f then f else f + 1)
         in of_int r * 2 powi k) = b64_scaled p q k"
  proof (cases "0 \<le> k")
    case True
    from assms(2) have pos: "0 < q * 2 ^ nat k"
      by simp
    from True have m: "(of_int p / of_int q :: rat) / 2 powi k = of_int p / of_int (q * 2 ^ nat k)"
      by (simp only: divide_powi if_True)
    from round_int [OF pos, of p] True show ?thesis
      unfolding m b64_scaled_def by (simp add: Let_def power_int_def)
  next
    case False
    then have m: "(of_int p / of_int q :: rat) / 2 powi k = of_int (p * 2 ^ nat (- k)) / of_int q"
      by (simp only: divide_powi if_False)
    from round_int [OF assms(2), of "p * 2 ^ nat (- k)"] False show ?thesis
      unfolding m b64_scaled_def
      by (simp add: Let_def power_int_def Fract_of_int_quotient power_one_over)
  qed
  then show ?thesis
    unfolding b64_abs_def k_def [symmetric] Let_def e
    by (simp add: Let_def k_def)
qed

lemma binary64_code [code]:
  "binary64 x =
     (if x = 0 then 0
      else case quotient_of x of (p, q) \<Rightarrow> of_int (sgn p) * b64_abs \<bar>p\<bar> q)"
proof (cases "x = 0")
  case True
  then show ?thesis
    by (simp add: binary64_def)
next
  case False
  obtain p q where pq: "quotient_of x = (p, q)"
    by (cases "quotient_of x")
  then have q: "0 < q" and x: "x = of_int p / of_int q"
    by (simp_all add: quotient_of_denom_pos quotient_of_div)
  with False have p: "p \<noteq> 0"
    by auto
  then have ap: "0 < \<bar>p\<bar>"
    by simp
  from pq have qa: "quotient_of \<bar>x\<bar> = (\<bar>p\<bar>, q)"
    by (simp add: rat_abs_code)
  from x q have a: "\<bar>x\<bar> = of_int \<bar>p\<bar> / of_int q"
    by simp
  from x q have s: "sgn x = of_int (sgn p)"
    by (simp add: sgn_if zero_less_divide_iff divide_less_0_iff)
  have "binary64 x = sgn x * (let a = (of_int \<bar>p\<bar> / of_int q :: rat);
              e0 = bitlen \<bar>p\<bar> - bitlen q;
              e = (if a < 2 powi e0 then e0 - 1 else e0);
              ulp = 2 powi (max (e - 52) (- 1074));
              m = a / ulp;
              f = \<lfloor>m\<rfloor>;
              r = (if m - of_int f < 1 / 2 then f
                   else if 1 / 2 < m - of_int f then f + 1
                   else if even f then f else f + 1)
          in of_int r * ulp)"
    using False unfolding binary64_def qa a [symmetric] Let_def
    by (simp add: mult.assoc qa)
  also note binary64_abs [OF ap q]
  finally show ?thesis
    using False by (simp add: pq s)
qed

section \<open>Methods keep invariants\<close>

lemma keeps_ret: "keeps P (ret x)"
  by (simp add: keeps_def ret_def)

lemma keeps_throw: "keeps P (throw e)"
  by (simp add: keeps_def throw_def)

lemma keeps_assert: "keeps P (assert b msg)"
  by (simp add: keeps_def assert_def ret_def throw_def)

lemma keeps_finiteNumber: "keeps P (finiteNumber x)"
  by (simp add: keeps_def finiteNumber_def ret_def throw_def)

lemma keeps_getObj: "keeps P (getObj a)"
  by (simp add: keeps_def getObj_def)

lemma keeps_getDeal: "keeps P (getDeal h)"
  by (simp add: keeps_def getDeal_def)

lemma keeps_bnd:
  assumes "keeps P m" and "\<And>x. keeps P (f x)"
  shows "keeps P (bnd m f)"
  unfolding keeps_def
proof (intro allI impI)
  fix s assume "P s"
  with assms(1) have mid: "P (snd (m s))"
    by (simp add: keeps_def)
  show "P (snd (bnd m f s))"
  proof (cases "m s")
    case (Pair r s')
    with mid have "P s'" by simp
    with assms(2) Pair show ?thesis
      by (cases r) (simp_all add: bnd_def keeps_def)
  qed
qed

lemma keeps_catch:
  assumes "keeps P m" and "\<And>e. keeps P (h e)"
  shows "keeps P (catch m h)"
  unfolding keeps_def
proof (intro allI impI)
  fix s assume "P s"
  with assms(1) have mid: "P (snd (m s))"
    by (simp add: keeps_def)
  show "P (snd (catch m h s))"
  proof (cases "m s")
    case (Pair r s')
    with mid have "P s'" by simp
    with assms(2) Pair show ?thesis
      by (cases r) (simp_all add: catch_def keeps_def)
  qed
qed

lemma keeps_conj:
  assumes "keeps P m" and "keeps Q m"
  shows "keeps (\<lambda>s. P s \<and> Q s) m"
  using assms by (simp add: keeps_def)

lemma keeps_bnd_getDeal:
  assumes "\<And>x. keeps (\<lambda>s. P s \<and> deals s h = x) (f x)"
  shows "keeps P (bnd (getDeal h) f)"
  using assms by (simp add: keeps_def bnd_def getDeal_def)

lemma keeps_bnd_newObj:
  assumes "\<And>s. P s \<Longrightarrow> Q (length (objs s)) (s\<lparr>objs := objs s @ [d]\<rparr>)"
    and "\<And>a. keeps (Q a) (f a)"
    and "\<And>a s. Q a s \<Longrightarrow> P s"
  shows "keeps P (bnd (newObj d) f)"
  using assms unfolding keeps_def bnd_def newObj_def by (simp) blast

lemma keeps_if: "keeps P m \<Longrightarrow> keeps P n \<Longrightarrow> keeps P (if c then m else n)"
  by simp

lemma keeps_case_option:
  "keeps P n \<Longrightarrow> (\<And>x. keeps P (f x)) \<Longrightarrow> keeps P (case v of None \<Rightarrow> n | Some x \<Rightarrow> f x)"
  by (cases v) simp_all

lemmas keeps_intros =
  keeps_bnd keeps_catch keeps_ret keeps_throw keeps_assert keeps_finiteNumber keeps_getObj
  keeps_getDeal

lemma pk_state: "primsKeep P a \<Longrightarrow> keeps P (setDealState a Error r)"
  by (simp add: primsKeep_def)

lemma pk_phase: "primsKeep P a \<Longrightarrow> keeps P (setDealPhase a p now)"
  by (simp add: primsKeep_def)

lemma pk_modify: "primsKeep P a \<Longrightarrow> fieldsKept f \<Longrightarrow> keeps P (modify a f)"
  by (simp add: primsKeep_def)

lemma pk_send: "primsKeep P a \<Longrightarrow> keeps P (sendPacket peer p)"
  by (simp add: primsKeep_def)

lemma primsKeep_conj:
  assumes "primsKeep P a" and "primsKeep Q a"
  shows "primsKeep (\<lambda>s. P s \<and> Q s) a"
  using assms by (simp add: primsKeep_def keeps_conj)

lemma keeps_acceptDeal_fail:
  assumes pk: "primsKeep P a"
  shows "keeps P (acceptDeal_fail a peer reqId reason)"
  unfolding acceptDeal_fail_def sendErrorToPeer_def
  by (intro keeps_intros pk_state [OF pk] pk_send [OF pk])

lemma keeps_acceptDeal_2:
  assumes pk: "primsKeep P a"
  shows "keeps P (acceptDeal_2 a lndclient reqId peer answer)"
  unfolding acceptDeal_2_def
  by (auto intro!: keeps_intros keeps_acceptDeal_fail [OF pk] pk_modify [OF pk]
        simp: fieldsKept_def split: sum.split)

lemma keeps_acceptDeal_3:
  assumes pk: "primsKeep P a"
  shows "keeps P (acceptDeal_3 cl a requestBody reqId peer answer now)"
  unfolding acceptDeal_3_def
  by (auto intro!: keeps_intros keeps_acceptDeal_fail [OF pk] pk_modify [OF pk] pk_send [OF pk]
        pk_phase [OF pk]
        simp: fieldsKept_def Let_def split: sum.split option.split list.split)

lemma keeps_handleSwapResponse_catch:
  assumes pk: "primsKeep P a"
  shows "keeps P (handleSwapResponse_catch a peer h err)"
  unfolding handleSwapResponse_catch_def sendErrorToPeer_def
  by (intro keeps_intros pk_state [OF pk] pk_send [OF pk])

lemma keeps_handleSwapResponse_2:
  assumes pk: "primsKeep P a"
  shows "keeps P (handleSwapResponse_2 a h peer answer now)"
  unfolding handleSwapResponse_2_def
  by (auto intro!: keeps_intros keeps_handleSwapResponse_catch [OF pk] pk_send [OF pk]
        pk_phase [OF pk] split: sum.split)

lemma keeps_resolveHash_catch:
  assumes pk: "primsKeep P a"
  shows "keeps P (resolveHash_catch a err)"
  unfolding resolveHash_catch_def
  by (intro keeps_intros pk_state [OF pk])

lemma keeps_resolveHash_2:
  assumes pk: "primsKeep P a"
  shows "keeps P (resolveHash_2 a answer now)"
  unfolding resolveHash_2_def
  by (auto intro!: keeps_intros keeps_resolveHash_catch [OF pk] pk_state [OF pk]
        pk_phase [OF pk] pk_modify [OF pk] simp: fieldsKept_def split: sum.split)

lemma keeps_validateRequest:
  assumes pk: "primsKeep P a"
  shows "keeps P (validateRequest a resolveRequest)"
  unfolding validateRequest_def
  by (auto intro!: keeps_intros pk_state [OF pk] simp: Let_def split: SwapDealRole.split)

lemma keeps_resolveHash_1:
  assumes pk: "\<And>a. primsKeep (\<lambda>s. P s \<and> deals s (hash resolveRequest) = Some a) a"
  shows "keeps P (resolveHash_1 resolveRequest now)"
  unfolding resolveHash_1_def
  by (rule keeps_bnd_getDeal)
     (auto intro!: keeps_intros keeps_validateRequest [OF pk] keeps_resolveHash_catch [OF pk]
        pk_phase [OF pk] simp: Let_def split: option.split)

lemma keeps_handleSwapResponse_1:
  assumes pk: "\<And>a h. primsKeep (\<lambda>s. P s \<and> deals s h = Some a) a"
  shows "keeps P (handleSwapResponse_1 body peer now)"
  unfolding handleSwapResponse_1_def
  by (auto intro!: keeps_intros keeps_bnd_getDeal keeps_handleSwapResponse_catch [OF pk]
        pk_phase [OF pk] pk_modify [OF pk] simp: Let_def fieldsKept_def split: option.split)

lemma keeps_handleSwapComplete:
  assumes pk: "\<And>a. primsKeep (\<lambda>s. P s \<and> deals s h = Some a) a"
  shows "keeps P (handleSwapComplete h now)"
  unfolding handleSwapComplete_def
  by (auto intro!: keeps_intros keeps_bnd_getDeal pk_phase [OF pk] split: option.split)

lemma keeps_handleSwapError:
  assumes pk: "\<And>a. primsKeep (\<lambda>s. P s \<and> deals s h = Some a) a"
  shows "keeps P (handleSwapError h errorMessage)"
  unfolding handleSwapError_def
  by (auto intro!: keeps_intros keeps_bnd_getDeal pk_state [OF pk] split: option.split)

lemma keeps_acceptDeal_1:
  assumes new: "\<And>d s. newDealOK d \<Longrightarrow> P s \<Longrightarrow> P (s\<lparr>objs := objs s @ [d]\<rparr>)"
    and pk: "\<And>a. primsKeep (\<lambda>s. P s \<and> a < length (objs s)) a"
    and add: "\<And>a. keeps (\<lambda>s. P s \<and> a < length (objs s)) (addDeal a)"
  shows "keeps P (acceptDeal_1 cl orderToAccept requestBody reqId peer now)"
  unfolding acceptDeal_1_def Let_def
  apply (rule keeps_bnd_newObj [where Q = "\<lambda>a s. P s \<and> a < length (objs s)"])
    apply (simp add: new newDealOK_def)
   apply (auto intro!: keeps_intros add keeps_acceptDeal_fail [OF pk] split: option.split)
  done

lemma keeps_beginSwap:
  assumes new: "\<And>d s. newDealOK d \<Longrightarrow> P s \<Longrightarrow> P (s\<lparr>objs := objs s @ [d]\<rparr>)"
    and pk: "\<And>a. primsKeep (\<lambda>s. P s \<and> a < length (objs s)) a"
    and add: "\<And>a. keeps (\<lambda>s. P s \<and> a < length (objs s)) (addDeal a)"
  shows "keeps P (beginSwap cl sha256hex maker taker peer preimage now)"
proof (cases "splitOn CHR ''/'' (pairId_po maker)")
  case Nil
  then show ?thesis
    unfolding beginSwap_def by (simp add: keeps_throw)
next
  case outer: (Cons baseCurrency rest)
  show ?thesis
  proof (cases rest)
    case Nil
    with outer show ?thesis
      unfolding beginSwap_def by (simp add: keeps_throw)
  next
    case (Cons quoteCurrency more)
    with outer have parts: "splitOn CHR ''/'' (pairId_po maker) = baseCurrency # quoteCurrency # more"
      by simp
    show ?thesis
    proof (cases "calculateSwapAmounts (quantity_oo taker) (price_po maker)")
      case None
      then show ?thesis
        unfolding beginSwap_def Let_def case_prod_beta parts list.case
        by (simp add: keeps_throw)
    next
      case (Some amounts)
      show ?thesis
        unfolding beginSwap_def Let_def case_prod_beta parts list.case Some option.case
        apply (rule keeps_bnd_newObj [where Q = "\<lambda>a s. P s \<and> a < length (objs s)"])
          apply (simp add: new newDealOK_def Some)
         apply (intro keeps_intros keeps_case_option add pk_state [OF pk] pk_send [OF pk]
            pk_phase [OF pk])
        apply simp
        done
    qed
  qed
qed

lemma keeps_executeSwap:
  assumes new: "\<And>d s. newDealOK d \<Longrightarrow> P s \<Longrightarrow> P (s\<lparr>objs := objs s @ [d]\<rparr>)"
    and pk: "\<And>a. primsKeep (\<lambda>s. P s \<and> a < length (objs s)) a"
    and add: "\<And>a. keeps (\<lambda>s. P s \<and> a < length (objs s)) (addDeal a)"
  shows "keeps P (executeSwap cl sha256hex maker taker peer preimage now)"
  unfolding executeSwap_def
  by (simp add: keeps_ret keeps_beginSwap [OF new pk add])

lemma keepsD: "keeps P m \<Longrightarrow> P s \<Longrightarrow> P (snd (m s))"
  by (simp add: keeps_def)

lemma step_keeps:
  assumes new: "\<And>d s. newDealOK d \<Longrightarrow> P s \<Longrightarrow> P (s\<lparr>objs := objs s @ [d]\<rparr>)"
    and pk: "\<And>a. primsKeep (\<lambda>s. P s \<and> a < length (objs s)) a"
    and look: "\<And>a h. primsKeep (\<lambda>s. P s \<and> deals s h = Some a) a"
    and add: "\<And>a. keeps (\<lambda>s. P s \<and> a < length (objs s)) (addDeal a)"
    and moves: "step s s'" and holds: "P s"
  shows "P s'"
  using moves
proof cases
  case (executeSwap_step cl sha256hex maker taker peer preimage now)
  with keepsD [OF keeps_executeSwap [OF new pk add] holds] show ?thesis by simp
next
  case (acceptDeal_1_step cl orderToAccept requestBody reqId peer now)
  with keepsD [OF keeps_acceptDeal_1 [OF new pk add] holds] show ?thesis by simp
next
  case (acceptDeal_2_step a lndclient reqId peer routesAnswer)
  have "keeps (\<lambda>s. P s \<and> a < length (objs s)) (acceptDeal_2 a lndclient reqId peer routesAnswer)"
    by (rule keeps_acceptDeal_2 [OF pk])
  from keepsD [OF this, of s] holds acceptDeal_2_step show ?thesis by simp
next
  case (acceptDeal_3_step a cl requestBody reqId peer infoAnswer now)
  have "keeps (\<lambda>s. P s \<and> a < length (objs s)) (acceptDeal_3 cl a requestBody reqId peer infoAnswer now)"
    by (rule keeps_acceptDeal_3 [OF pk])
  from keepsD [OF this, of s] holds acceptDeal_3_step show ?thesis by simp
next
  case (handleSwapResponse_1_step body peer now)
  with keepsD [OF keeps_handleSwapResponse_1 [OF look] holds] show ?thesis by simp
next
  case (handleSwapResponse_2_step a h peer sendAnswer now)
  have "keeps (\<lambda>s. P s \<and> a < length (objs s)) (handleSwapResponse_2 a h peer sendAnswer now)"
    by (rule keeps_handleSwapResponse_2 [OF pk])
  from keepsD [OF this, of s] holds handleSwapResponse_2_step show ?thesis by simp
next
  case (resolveHash_1_step resolveRequest now)
  with keepsD [OF keeps_resolveHash_1 [OF look] holds] show ?thesis by simp
next
  case (resolveHash_2_step a sendAnswer now)
  have "keeps (\<lambda>s. P s \<and> a < length (objs s)) (resolveHash_2 a sendAnswer now)"
    by (rule keeps_resolveHash_2 [OF pk])
  from keepsD [OF this, of s] holds resolveHash_2_step show ?thesis by simp
next
  case (handleSwapComplete_step h now)
  with keepsD [OF keeps_handleSwapComplete [OF look] holds] show ?thesis by simp
next
  case (handleSwapError_step h errorMessage)
  with keepsD [OF keeps_handleSwapError [OF look] holds] show ?thesis by simp
qed

lemmas prim_defs =
  setDealState_def setDealPhase_def bnd_def getObj_def modify_def emit_def sendPacket_def
  assert_def ret_def throw_def

lemma touches_setDealState: "touches a s (snd (setDealState a newState r s))"
  by (cases "a < length (objs s)"; cases "state (objs s ! a)")
     (simp_all add: touches_def prim_defs list_update_beyond)

lemma touches_setDealPhase: "touches a s (snd (setDealPhase a p now s))"
  by (cases "a < length (objs s)"; cases "state (objs s ! a)"; cases p)
     (simp_all add: touches_def prim_defs list_update_beyond)

lemma touches_modify: "fieldsKept f \<Longrightarrow> touches a s (snd (modify a f s))"
  by (cases "a < length (objs s)") (simp_all add: touches_def fieldsKept_def modify_def list_update_beyond)

lemma touches_sendPacket: "touches a s (snd (sendPacket peer p s))"
  by (simp add: touches_def sendPacket_def)

lemma primsKeep_touches:
  assumes "\<And>s s'. touches a s s' \<Longrightarrow> P s \<Longrightarrow> P s'"
  shows "primsKeep P a"
  unfolding primsKeep_def keeps_def
  using assms touches_setDealState touches_setDealPhase touches_modify touches_sendPacket
  by blast

lemma primsKeep_deals: "primsKeep (\<lambda>s. deals s h = x) a"
  by (rule primsKeep_touches) (simp add: touches_def)

lemma primsKeep_valid: "primsKeep (\<lambda>s. b < length (objs s)) a"
  by (rule primsKeep_touches) (simp add: touches_def)

lemma primsKeep_frozenAt:
  assumes "st \<noteq> Active"
  shows "primsKeep (frozenAt a0 ph st) a"
proof (rule primsKeep_touches)
  fix s s' assume "touches a s s'" and "frozenAt a0 ph st s"
  with assms show "frozenAt a0 ph st s'"
    by (cases "a0 = a") (auto simp add: touches_def frozenAt_def)
qed

lemma keeps_addDeal_frozenAt: "keeps (frozenAt a0 ph st) (addDeal a)"
  by (simp add: keeps_def frozenAt_def addDeal_def)

lemma keeps_addDeal_valid: "keeps (\<lambda>s. b < length (objs s)) (addDeal a)"
  by (simp add: keeps_def addDeal_def)

lemma frozenAt_step:
  assumes "st \<noteq> Active" and "step s s'" and "frozenAt a0 ph st s"
  shows "frozenAt a0 ph st s'"
proof (rule step_keeps [where P = "frozenAt a0 ph st", OF _ _ _ _ assms(2,3)])
  fix d s assume "frozenAt a0 ph st s"
  then show "frozenAt a0 ph st (s\<lparr>objs := objs s @ [d]\<rparr>)"
    by (simp add: frozenAt_def nth_append)
next
  fix a show "primsKeep (\<lambda>s. frozenAt a0 ph st s \<and> a < length (objs s)) a"
    by (intro primsKeep_conj primsKeep_frozenAt assms(1) primsKeep_valid)
next
  fix a h show "primsKeep (\<lambda>s. frozenAt a0 ph st s \<and> deals s h = Some a) a"
    by (intro primsKeep_conj primsKeep_frozenAt assms(1) primsKeep_deals)
next
  fix a show "keeps (\<lambda>s. frozenAt a0 ph st s \<and> a < length (objs s)) (addDeal a)"
    by (intro keeps_conj keeps_addDeal_frozenAt keeps_addDeal_valid)
qed

lemma primsKeep_takerAmountsInv: "primsKeep takerAmountsInv a"
proof (rule primsKeep_touches)
  fix s s' assume t: "touches a s s'" and inv: "takerAmountsInv s"
  show "takerAmountsInv s'"
    unfolding takerAmountsInv_def list_all_length
  proof (intro allI impI)
    fix b assume "b < length (objs s')"
    with t inv have "myRole (objs s ! b) = Maker \<or> amountsOK (objs s ! b)"
      by (simp add: touches_def takerAmountsInv_def list_all_length)
    with t show "myRole (objs s' ! b) = Maker \<or> amountsOK (objs s' ! b)"
      by (cases "b = a") (auto simp add: touches_def amountsOK_def)
  qed
qed

lemma takerAmountsInv_step:
  assumes "step s s'" and "takerAmountsInv s"
  shows "takerAmountsInv s'"
proof (rule step_keeps [where P = takerAmountsInv, OF _ _ _ _ assms])
  fix d s assume "newDealOK d" and "takerAmountsInv s"
  then show "takerAmountsInv (s\<lparr>objs := objs s @ [d]\<rparr>)"
    by (cases "myRole d") (simp_all add: takerAmountsInv_def newDealOK_def amountsOK_def)
next
  fix a show "primsKeep (\<lambda>s. takerAmountsInv s \<and> a < length (objs s)) a"
    by (intro primsKeep_conj primsKeep_takerAmountsInv primsKeep_valid)
next
  fix a h show "primsKeep (\<lambda>s. takerAmountsInv s \<and> deals s h = Some a) a"
    by (intro primsKeep_conj primsKeep_takerAmountsInv primsKeep_deals)
next
  fix a show "keeps (\<lambda>s. takerAmountsInv s \<and> a < length (objs s)) (addDeal a)"
    by (simp add: keeps_def addDeal_def takerAmountsInv_def)
qed

lemma eventsInv_alloc:
  assumes inv: "eventsInv s" and fresh: "state d = Active" "phase d = SwapCreated"
  shows "eventsInv (s\<lparr>objs := objs s @ [d]\<rparr>)"
  unfolding eventsInv_def
proof (intro conjI allI impI)
  fix h a assume "deals (s\<lparr>objs := objs s @ [d]\<rparr>) h = Some a"
  with inv show "a < length (objs (s\<lparr>objs := objs s @ [d]\<rparr>))"
    by (auto simp add: eventsInv_def less_Suc_eq)
next
  fix a
  from inv have old: "if a < length (objs s) then dealEventsOK a s
                      else failedCount a s = 0 \<and> paidCount a s = 0"
    by (simp add: eventsInv_def)
  show "if a < length (objs (s\<lparr>objs := objs s @ [d]\<rparr>))
        then dealEventsOK a (s\<lparr>objs := objs s @ [d]\<rparr>)
        else failedCount a (s\<lparr>objs := objs s @ [d]\<rparr>) = 0 \<and>
             paidCount a (s\<lparr>objs := objs s @ [d]\<rparr>) = 0"
  proof (cases "a < length (objs s)")
    case True
    with old show ?thesis
      by (simp add: nth_append dealEventsOK_def paidCount_def failedCount_def)
  next
    case False
    with old fresh show ?thesis
      by (cases "a = length (objs s)")
         (simp_all add: nth_append dealEventsOK_def paidCount_def failedCount_def)
  qed
qed

lemma eventsInv_advances:
  assumes inv: "eventsInv s" and valid: "a < length (objs s)" and adv: "advances a s s'"
  shows "eventsInv s'"
  unfolding eventsInv_def
proof (intro conjI allI impI)
  fix h b assume "deals s' h = Some b"
  with inv adv show "b < length (objs s')"
    by (simp add: eventsInv_def advances_def)
next
  fix b
  from inv have old: "if b < length (objs s) then dealEventsOK b s
                      else failedCount b s = 0 \<and> paidCount b s = 0"
    by (simp add: eventsInv_def)
  show "if b < length (objs s') then dealEventsOK b s'
        else failedCount b s' = 0 \<and> paidCount b s' = 0"
  proof (cases "b = a")
    case True
    with old valid adv show ?thesis
      by (simp add: advances_def)
  next
    case False
    with adv have same: "objs s' ! b = objs s ! b" "failedCount b s' = failedCount b s"
        "paidCount b s' = paidCount b s" "length (objs s') = length (objs s)"
      by (simp_all add: advances_def)
    with old show ?thesis
      by (cases "b < length (objs s)") (simp_all add: dealEventsOK_def)
  qed
qed

lemma advances_setDealState:
  assumes "a < length (objs s)"
  shows "advances a s (snd (setDealState a Error r s))"
  using assms
  by (cases "state (objs s ! a)")
     (simp_all add: advances_def dealEventsOK_def paidCount_def failedCount_def prim_defs)

lemma advances_setDealPhase:
  assumes "a < length (objs s)"
  shows "advances a s (snd (setDealPhase a p now s))"
  using assms
  by (cases p; cases "state (objs s ! a)")
     (simp_all add: advances_def dealEventsOK_def paidCount_def failedCount_def prim_defs)

lemma advances_modify:
  assumes "a < length (objs s)" and "fieldsKept f"
  shows "advances a s (snd (modify a f s))"
  using assms
  by (simp add: advances_def dealEventsOK_def paidCount_def failedCount_def modify_def
        fieldsKept_def)

lemma advances_sendPacket: "advances a s (snd (sendPacket peer p s))"
  by (simp add: advances_def dealEventsOK_def paidCount_def failedCount_def sendPacket_def)

lemma advances_valid: "advances a s s' \<Longrightarrow> a < length (objs s) \<Longrightarrow> a < length (objs s')"
  by (simp add: advances_def)

lemma primsKeep_eventsInv: "primsKeep (\<lambda>s. eventsInv s \<and> a < length (objs s)) a"
  unfolding primsKeep_def keeps_def
  using eventsInv_advances advances_valid advances_setDealState advances_setDealPhase
    advances_modify advances_sendPacket
  by blast

lemma eventsInv_step:
  assumes "step s s'" and "eventsInv s"
  shows "eventsInv s'"
proof (rule step_keeps [where P = eventsInv, OF _ _ _ _ assms])
  fix d s assume "newDealOK d" and "eventsInv s"
  then show "eventsInv (s\<lparr>objs := objs s @ [d]\<rparr>)"
    by (simp add: eventsInv_alloc newDealOK_def)
next
  fix a show "primsKeep (\<lambda>s. eventsInv s \<and> a < length (objs s)) a"
    by (rule primsKeep_eventsInv)
next
  fix a h
  have "(\<lambda>s. eventsInv s \<and> deals s h = Some a) =
        (\<lambda>s. (eventsInv s \<and> a < length (objs s)) \<and> deals s h = Some a)"
    by (auto simp add: eventsInv_def)
  then show "primsKeep (\<lambda>s. eventsInv s \<and> deals s h = Some a) a"
    by (simp only: primsKeep_conj [OF primsKeep_eventsInv primsKeep_deals])
next
  fix a show "keeps (\<lambda>s. eventsInv s \<and> a < length (objs s)) (addDeal a)"
    by (simp add: keeps_def addDeal_def eventsInv_def dealEventsOK_def paidCount_def
          failedCount_def)
qed

section \<open>The runs, state by state\<close>

text \<open>
  The arithmetic of the runs, evaluated once: the amounts of quantity 1 and of quantity
  1/2 at price 0.01, the expected amounts in msat, the remaining timelocks, and the
  maker's CLTV delta for a route of total timelock 144 at the height 0.
\<close>

lemma numbers:
  "calculateSwapAmounts 1 (binary64 (1 / 100)) = Some (1000000, 100000000)"
  "calculateSwapAmounts (1 / 2) (binary64 (1 / 100)) = Some (500000, 50000000)"
  "mulJS 1000000 1000 = 1000000000" "finite64 1000000000"
  "subJS 600 0 = 600" "finite64 600"
  "mulJS 100000000 1000 = 100000000000" "finite64 100000000000"
  "subJS 90 0 = 90" "finite64 90"
  "subJS 144 0 = 144" "finite64 144"
  "finite64 (divJS 576 40)" "divJS 576 40 \<noteq> 0"
  "divJS 144 (divJS 576 40) = 10" "finite64 10"
  "addJS 40 10 = 50" "finite64 50"
  "Math_round (mulJS 1 100000000) = 100000000"
  by code_simp+

lemmas run_defs =
  executeSwap_def verifyExecution_def isPairSupported_def beginSwap_def verifyLndSetup_def
  handleSwapResponse_1_def handleSwapResponse_2_def handleSwapResponse_catch_def
  acceptDeal_1_def acceptDeal_2_def acceptDeal_3_def acceptDeal_fail_def sendErrorToPeer_def
  validateRequest_def resolveHash_1_def resolveHash_2_def resolveHash_catch_def
  handleSwapComplete_def handleSwapError_def setDealState_def setDealPhase_def swapResult_def
  bnd_def catch_def ret_def throw_def assert_def finiteNumber_def getObj_def getDeal_def
  modify_def newObj_def addDeal_def emit_def sendPacket_def Let_def

lemmas fixture_defs =
  clients_def stubHash_def peerP_def peerT_def makerOrder_def takerOrder_def response1_def
  resolve1_def request1_def accept1_def resolve2_def tooSmall_def wrongPreimage_def
  response_more_def response_zero_def response_half_def send1_def request_odd_def
  takerDeal_def makerDeal_def initial_def numbers

lemma taker1_eq:
  "taker1 =
     \<lparr>deals = [''haa'' \<mapsto> 0], objs = [takerDeal\<lparr>phase := SwapRequested\<rparr>], emitted = [],
      sentPackets = [(''P'', SwapRequestPacket request1)]\<rparr>"
  unfolding taker1_def by (simp add: run_defs fixture_defs)

lemma taker2_eq:
  "taker2 =
     \<lparr>deals = [''haa'' \<mapsto> 0],
      objs = [takerDeal\<lparr>phase := AmountSent, quantity := Some 1, makerCltvDelta := Some 50,
                         executeTime := Some 2\<rparr>],
      emitted = [], sentPackets = [(''P'', SwapRequestPacket request1)]\<rparr>"
  unfolding taker2_def taker1_eq by (simp add: run_defs fixture_defs)

lemma taker3_eq:
  "taker3 =
     \<lparr>deals = [''haa'' \<mapsto> 0],
      objs = [takerDeal\<lparr>phase := AmountReceived, quantity := Some 1, makerCltvDelta := Some 50,
                         executeTime := Some 2\<rparr>],
      emitted = [swap_paid 0 (swapResult (takerDeal\<lparr>quantity := Some 1\<rparr>))],
      sentPackets = [(''P'', SwapRequestPacket request1)]\<rparr>"
  unfolding taker3_def taker2_eq by (simp add: run_defs fixture_defs)

lemma taker4_eq:
  "taker4 =
     \<lparr>deals = [''haa'' \<mapsto> 0],
      objs = [takerDeal\<lparr>phase := SwapCompleted, state := Completed,
                         stateReason := ''Swap completed. preimage = aa'', quantity := Some 1,
                         makerCltvDelta := Some 50, executeTime := Some 2,
                         competionTime := Some 4\<rparr>],
      emitted = [swap_paid 0 (swapResult (takerDeal\<lparr>quantity := Some 1\<rparr>))],
      sentPackets = [(''P'', SwapRequestPacket request1), (''P'', SwapCompletePacket ''haa'')]\<rparr>"
  unfolding taker4_def taker3_eq by (simp add: run_defs fixture_defs)

lemma maker1_eq:
  "maker1 = \<lparr>deals = [''haa'' \<mapsto> 0], objs = [makerDeal], emitted = [], sentPackets = []\<rparr>"
  unfolding maker1_def by (simp add: run_defs fixture_defs)

lemma maker2_eq:
  "maker2 =
     \<lparr>deals = [''haa'' \<mapsto> 0],
      objs = [makerDeal\<lparr>makerToTakerRoutes := Some [\<lparr>totalTimeLock = 144\<rparr>]\<rparr>],
      emitted = [], sentPackets = []\<rparr>"
  unfolding maker2_def maker1_eq by (simp add: run_defs fixture_defs)

lemma maker3_eq:
  "maker3 =
     \<lparr>deals = [''haa'' \<mapsto> 0],
      objs = [makerDeal\<lparr>phase := SwapAgreed, makerCltvDelta := Some 50,
                         makerToTakerRoutes := Some [\<lparr>totalTimeLock = 144\<rparr>]\<rparr>],
      emitted = [],
      sentPackets = [(''T'', SwapResponsePacket response1 ''r1'')]\<rparr>"
  unfolding maker3_def maker2_eq by (simp add: run_defs fixture_defs)

lemma maker4_eq:
  "maker4 =
     \<lparr>deals = [''haa'' \<mapsto> 0],
      objs = [makerDeal\<lparr>phase := AmountSent, makerCltvDelta := Some 50,
                         makerToTakerRoutes := Some [\<lparr>totalTimeLock = 144\<rparr>],
                         executeTime := Some 4\<rparr>],
      emitted = [],
      sentPackets = [(''T'', SwapResponsePacket response1 ''r1'')]\<rparr>"
  unfolding maker4_def maker3_eq by (simp add: run_defs fixture_defs)

lemma maker5_eq:
  "maker5 =
     \<lparr>deals = [''haa'' \<mapsto> 0],
      objs = [makerDeal\<lparr>phase := AmountReceived, makerCltvDelta := Some 50,
                         r_preimage := Some ''aa'',
                         makerToTakerRoutes := Some [\<lparr>totalTimeLock = 144\<rparr>],
                         executeTime := Some 4\<rparr>],
      emitted = [swap_paid 0 (swapResult makerDeal)],
      sentPackets = [(''T'', SwapResponsePacket response1 ''r1'')]\<rparr>"
  unfolding maker5_def maker4_eq by (simp add: run_defs fixture_defs)

lemma maker6_eq:
  "maker6 =
     \<lparr>deals = [''haa'' \<mapsto> 0],
      objs = [makerDeal\<lparr>phase := AmountReceived, state := Error, stateReason := ''boom'',
                         makerCltvDelta := Some 50, r_preimage := Some ''aa'',
                         makerToTakerRoutes := Some [\<lparr>totalTimeLock = 144\<rparr>],
                         executeTime := Some 4\<rparr>],
      emitted = [swap_paid 0 (swapResult makerDeal), swap_failed 0],
      sentPackets = [(''T'', SwapResponsePacket response1 ''r1'')]\<rparr>"
  unfolding maker6_def maker5_eq by (simp add: run_defs fixture_defs)

lemma maker_odd_eq:
  "maker_odd =
     \<lparr>deals = [''hbb'' \<mapsto> 0], objs = [makerDeal\<lparr>makerAmount := 5, r_hash := ''hbb''\<rparr>],
      emitted = [], sentPackets = []\<rparr>"
  unfolding maker_odd_def by (simp add: run_defs fixture_defs)

lemma reachable_initial: "reachable initial"
  by (simp add: reachable_def)

lemma reachable_step: "reachable s \<Longrightarrow> step s s' \<Longrightarrow> reachable s'"
  by (simp add: reachable_def)

lemma reachable_run: "reachable s \<Longrightarrow> rtranclp step s s' \<Longrightarrow> reachable s'"
  by (simp add: reachable_def)

lemma reachable_taker1: "reachable taker1"
  unfolding taker1_def by (intro reachable_step [OF reachable_initial] executeSwap_step)

lemma reachable_taker2: "reachable taker2"
  unfolding taker2_def by (intro reachable_step [OF reachable_taker1] handleSwapResponse_1_step)

lemma reachable_taker3: "reachable taker3"
  unfolding taker3_def by (intro reachable_step [OF reachable_taker2] resolveHash_1_step)

lemma length_taker3: "length (objs taker3) = 1"
  by (simp add: taker3_eq)

lemma reachable_taker4: "reachable taker4"
  unfolding taker4_def
  by (intro reachable_step [OF reachable_taker3] handleSwapResponse_2_step) (simp add: length_taker3)

lemma reachable_maker1: "reachable maker1"
  unfolding maker1_def by (intro reachable_step [OF reachable_initial] acceptDeal_1_step)

lemma length_maker1: "length (objs maker1) = 1"
  by (simp add: maker1_eq)

lemma reachable_maker2: "reachable maker2"
  unfolding maker2_def
  by (intro reachable_step [OF reachable_maker1] acceptDeal_2_step) (simp add: length_maker1)

lemma length_maker2: "length (objs maker2) = 1"
  by (simp add: maker2_eq)

lemma reachable_maker3: "reachable maker3"
  unfolding maker3_def
  by (intro reachable_step [OF reachable_maker2] acceptDeal_3_step) (simp add: length_maker2)

lemma reachable_maker4: "reachable maker4"
  unfolding maker4_def by (intro reachable_step [OF reachable_maker3] resolveHash_1_step)

lemma length_maker4: "length (objs maker4) = 1"
  by (simp add: maker4_eq)

lemma reachable_maker5: "reachable maker5"
  unfolding maker5_def
  by (intro reachable_step [OF reachable_maker4] resolveHash_2_step) (simp add: length_maker4)

lemma reachable_maker6: "reachable maker6"
  unfolding maker6_def by (intro reachable_step [OF reachable_maker5] handleSwapError_step)

lemma reachable_maker_odd: "reachable maker_odd"
  unfolding maker_odd_def by (intro reachable_step [OF reachable_initial] acceptDeal_1_step)

lemma eventsInv_initial: "eventsInv initial"
  by (simp add: eventsInv_def initial_def paidCount_def failedCount_def)

lemma eventsInv_reachable: "reachable s \<Longrightarrow> eventsInv s"
  unfolding reachable_def
  by (induction rule: rtranclp_induct) (simp_all add: eventsInv_initial eventsInv_step)

lemma takerAmountsInv_reachable: "reachable s \<Longrightarrow> takerAmountsInv s"
  unfolding reachable_def
  by (induction rule: rtranclp_induct)
     (simp_all add: takerAmountsInv_step, simp add: takerAmountsInv_def initial_def)

lemma frozenAt_run:
  assumes "st \<noteq> Active" and "rtranclp step s s'" and "frozenAt a ph st s"
  shows "frozenAt a ph st s'"
  using assms(2,3)
  by (induction rule: rtranclp_induct) (simp_all add: frozenAt_step [OF assms(1)])

section \<open>Unknown hashes\<close>

text \<open>
  C8. For an \<open>r_hash\<close> that has no entry in the registry, \<open>handleSwapComplete\<close> and
  \<open>handleSwapError\<close> return normally and leave the whole state as it was: the registry,
  every deal object, the emitted events and the packets sent.
\<close>

theorem unknown_hash_noop:
  assumes "deals s h = None"
  shows "handleSwapComplete h now s = (Inr (), s) \<and> handleSwapError h errorMessage s = (Inr (), s)"
  using assms by (simp add: handleSwapComplete_def handleSwapError_def bnd_def getDeal_def ret_def)

theorem unknown_hash_noop_witness:
  "deals initial ''00'' = None \<and>
   handleSwapComplete ''00'' 0 initial = (Inr (), initial) \<and>
   handleSwapError ''00'' ''boom'' initial = (Inr (), initial)"
proof -
  have unknown: "deals initial ''00'' = None"
    by (simp add: initial_def)
  from unknown_hash_noop [OF unknown, of 0 "''boom''"] unknown show ?thesis
    by simp
qed

section \<open>A swap-complete packet that comes too early or twice\<close>

text \<open>
  C9. When the deal that a swap-complete packet refers to is not \<open>Active\<close>, or is not in
  phase \<open>AmountReceived\<close>, \<open>handleSwapComplete\<close> does not return: an assertion of
  \<open>setDealPhase\<close> fails. The handler neither sets the deal to \<open>Error\<close> nor returns
  quietly; no field of the deal has been written when the assertion fails.
\<close>

theorem premature_complete_asserts:
  assumes "deals s h = Some a"
    and "state (objs s ! a) \<noteq> Active \<or> phase (objs s ! a) \<noteq> AmountReceived"
  shows "handleSwapComplete h now s =
           (Inl (AssertionError
                  (if state (objs s ! a) \<noteq> Active
                   then ''deal is not Active. Can not change deal phase''
                   else ''SwapCompleted can be only be set after AmountReceived'')), s)"
  using assms
  by (auto simp add: handleSwapComplete_def setDealPhase_def bnd_def getDeal_def getObj_def
        assert_def ret_def throw_def)

theorem premature_complete_asserts_witness:
  "deals taker1 ''haa'' = Some 0 \<and> phase (objs taker1 ! 0) = SwapRequested \<and>
   handleSwapComplete ''haa'' 2 taker1 =
     (Inl (AssertionError ''SwapCompleted can be only be set after AmountReceived''), taker1)"
proof -
  have found: "deals taker1 ''haa'' = Some 0"
    and early: "phase (objs taker1 ! 0) = SwapRequested"
    and active: "state (objs taker1 ! 0) = Active"
    by (simp_all add: taker1_eq takerDeal_def)
  from early have "state (objs taker1 ! 0) \<noteq> Active \<or> phase (objs taker1 ! 0) \<noteq> AmountReceived"
    by simp
  from premature_complete_asserts [OF found this, of 2] found early active show ?thesis
    by simp
qed

section \<open>A second request with the same hash\<close>

text \<open>
  C10. \<open>addDeal\<close> for an \<open>r_hash\<close> that the registry already holds replaces the entry and
  returns normally. \<open>acceptDeal\<close> makes no check for it: with a request whose \<open>r_hash\<close> is
  registered, the registry afterwards maps the hash to the new maker deal, the deal that
  was registered is left as it was but is no longer found, and the call returns, emits
  and sends exactly what it does when the hash is not registered.
\<close>

theorem duplicate_hash_overwrites:
  assumes "deals s h = Some b" and "b < length (objs s)"
  shows "(r_hash (objs s ! a) = h \<longrightarrow> addDeal a s = (Inr (), s\<lparr>deals := (deals s)(h \<mapsto> a)\<rparr>)) \<and>
         (r_hash_rq requestBody = h \<longrightarrow>
            (case (acceptDeal_1 cl orderToAccept requestBody reqId peer now s,
                   acceptDeal_1 cl orderToAccept requestBody reqId peer now
                     (s\<lparr>deals := (deals s)(h := None)\<rparr>)) of
               ((r, s'), (r0, s0)) \<Rightarrow>
                 deals s' h = Some (length (objs s)) \<and> length (objs s) \<noteq> b \<and>
                 objs s' ! b = objs s ! b \<and>
                 myRole (objs s' ! length (objs s)) = Maker \<and>
                 r_hash (objs s' ! length (objs s)) = h \<and>
                 (\<exists>v. r = Inr v) \<and>
                 r = r0 \<and> emitted s' = emitted s0 \<and> sentPackets s' = sentPackets s0))"
proof (intro conjI impI)
  assume "r_hash (objs s ! a) = h"
  then show "addDeal a s = (Inr (), s\<lparr>deals := (deals s)(h \<mapsto> a)\<rparr>)"
    by (simp add: addDeal_def)
next
  assume "r_hash_rq requestBody = h"
  with assms show "case (acceptDeal_1 cl orderToAccept requestBody reqId peer now s,
                   acceptDeal_1 cl orderToAccept requestBody reqId peer now
                     (s\<lparr>deals := (deals s)(h := None)\<rparr>)) of
               ((r, s'), (r0, s0)) \<Rightarrow>
                 deals s' h = Some (length (objs s)) \<and> length (objs s) \<noteq> b \<and>
                 objs s' ! b = objs s ! b \<and>
                 myRole (objs s' ! length (objs s)) = Maker \<and>
                 r_hash (objs s' ! length (objs s)) = h \<and>
                 (\<exists>v. r = Inr v) \<and>
                 r = r0 \<and> emitted s' = emitted s0 \<and> sentPackets s' = sentPackets s0"
    by (simp add: acceptDeal_1_def acceptDeal_fail_def sendErrorToPeer_def setDealState_def
          bnd_def newObj_def addDeal_def getObj_def modify_def emit_def sendPacket_def
          assert_def ret_def throw_def Let_def nth_append split: option.split)
qed

theorem duplicate_hash_overwrites_witness:
  "deals maker6 ''haa'' = Some 0 \<and> length (objs maker6) = 1 \<and>
   state (objs maker6 ! 0) = Error \<and> r_hash_rq request1 = ''haa'' \<and>
   addDeal 0 maker6 = (Inr (), maker6\<lparr>deals := (deals maker6)(''haa'' \<mapsto> 0)\<rparr>) \<and>
   deals (snd (acceptDeal_1 clients accept1 request1 ''r2'' peerT 7 maker6)) ''haa'' = Some 1 \<and>
   state (objs (snd (acceptDeal_1 clients accept1 request1 ''r2'' peerT 7 maker6)) ! 1) = Active"
proof -
  have found: "deals maker6 ''haa'' = Some 0"
    and len: "length (objs maker6) = 1"
    and failed: "state (objs maker6 ! 0) = Error"
    and own: "r_hash (objs maker6 ! 0) = ''haa''"
    and fresh: "state (objs (snd (acceptDeal_1 clients accept1 request1 ''r2'' peerT 7 maker6)) ! 1) = Active"
    by (simp_all add: maker6_eq run_defs fixture_defs)
  have same: "r_hash_rq request1 = ''haa''"
    by (simp add: request1_def)
  from len have valid: "0 < length (objs maker6)"
    by simp
  from duplicate_hash_overwrites [OF found valid, of 0 request1 clients accept1 "''r2''" peerT 7]
    found len failed own fresh same
  show ?thesis
    by (simp split: prod.splits)
qed

section \<open>Validation of an inbound HTLC\<close>

text \<open>
  C1, as the code has it. For a deal that \<open>resolveHash\<close> finds and whose state is \<open>Active\<close>
  or \<open>Error\<close>, with the expected amount times 1000 and the timeout minus the current
  height as JavaScript computes them (the rounded product and the rounded difference,
  both finite): when the HTLC's amount is below the former, or else the latter is below
  the required CLTV delta, the deal is in state \<open>Error\<close> afterwards and \<open>resolveHash\<close>
  returns the deal's reason string (the reason of this failure, appended to the earlier
  reasons of a deal that was in \<open>Error\<close> before); when both checks pass,
  \<open>validateRequest\<close> returns \<open>true\<close> and changes nothing.
\<close>

theorem resolveHash_rejects_invalid_htlc:
  assumes "deals s (hash rr) = Some a" and "a < length (objs s)"
    and "state (objs s ! a) \<noteq> Completed"
    and "finite64 (expectedAmountMsat (objs s ! a))"
    and "amount rr < expectedAmountMsat (objs s ! a) \<or>
         finite64 (subJS (timeout rr) (heightNow rr))"
  shows "case resolveHash_1 rr now s of
           (r, s') \<Rightarrow>
             if amount rr < expectedAmountMsat (objs s ! a) then
               state (objs s' ! a) = Error \<and>
               r = Inr (Return (Some (stateReason (objs s' ! a)))) \<and>
               stateReason (objs s' ! a) =
                 aggregated (objs s ! a)
                   (''Amount sent from '' @ sender (objs s ! a) @ '' to destinationis too small'')
             else if timelockTooShort (objs s ! a) rr then
               state (objs s' ! a) = Error \<and>
               r = Inr (Return (Some (stateReason (objs s' ! a)))) \<and>
               stateReason (objs s' ! a) =
                 aggregated (objs s ! a)
                   (''cltvDelta sent from '' @ sender (objs s ! a) @ '' to destinationis too small'')
             else validateRequest a rr s = (Inr True, s)"
proof -
  have "state (objs s ! a) = Active \<or> state (objs s ! a) = Error"
    using assms(3) by (cases "state (objs s ! a)") simp_all
  with assms(1,2,4,5) show ?thesis
    by (cases "myRole (objs s ! a)"; cases "makerCltvDelta (objs s ! a)")
       (auto simp add: resolveHash_1_def validateRequest_def setDealState_def expectedAmountMsat_def
          requiredCltvDelta_def timelockTooShort_def sender_def aggregated_def finiteNumber_def
          bnd_def getDeal_def getObj_def modify_def emit_def assert_def ret_def throw_def Let_def)
qed

theorem resolveHash_rejects_invalid_htlc_witness:
  "deals taker2 (hash tooSmall) = Some 0 \<and> length (objs taker2) = 1 \<and>
   state (objs taker2 ! 0) = Active \<and>
   expectedAmountMsat (objs taker2 ! 0) = 1000000000 \<and> finite64 1000000000 \<and>
   amount tooSmall < expectedAmountMsat (objs taker2 ! 0) \<and>
   state (objs (snd (resolveHash_1 tooSmall 3 taker2)) ! 0) = Error \<and>
   fst (resolveHash_1 tooSmall 3 taker2) =
     Inr (Return (Some ''Amount sent from Maker to destinationis too small''))"
proof -
  have found: "deals taker2 (hash tooSmall) = Some 0"
    and len: "length (objs taker2) = 1"
    and active: "state (objs taker2 ! 0) = Active"
    and role: "myRole (objs taker2 ! 0) = Taker"
    and expected: "expectedAmountMsat (objs taker2 ! 0) = 1000000000"
    and fin: "finite64 1000000000"
    and offered: "amount tooSmall = 999999999"
    by (simp_all add: taker2_eq expectedAmountMsat_def fixture_defs)
  from len have valid: "0 < length (objs taker2)"
    by simp
  from active have open_deal: "state (objs taker2 ! 0) \<noteq> Completed"
    by simp
  from expected fin have finite_product: "finite64 (expectedAmountMsat (objs taker2 ! 0))"
    by simp
  from expected offered have small: "amount tooSmall < expectedAmountMsat (objs taker2 ! 0)"
    by simp
  then have computed: "amount tooSmall < expectedAmountMsat (objs taker2 ! 0) \<or>
      finite64 (subJS (timeout tooSmall) (heightNow tooSmall))"
    by simp
  from resolveHash_rejects_invalid_htlc [OF found valid open_deal finite_product computed, of 3]
    found len active role expected fin small
  show ?thesis
    by (simp add: aggregated_def sender_def split: prod.splits)
qed

text \<open>
  The claim as it is stated covers every deal that is found. For a deal in state
  \<open>Completed\<close> it fails: the taker's deal of the first run has completed, a further HTLC
  for the same hash offers one msat too little, and \<open>setDealState\<close> throws the assertion
  error instead of setting \<open>Error\<close>; \<open>resolveHash\<close> returns no reason.
\<close>

theorem resolveHash_completed_deal_counterexample:
  "deals taker4 (hash tooSmall) = Some 0 \<and> state (objs taker4 ! 0) = Completed \<and>
   amount tooSmall < expectedAmountMsat (objs taker4 ! 0) \<and>
   fst (resolveHash_1 tooSmall 5 taker4) =
     Inl (AssertionError ''deal is not Active. Can not change deal state'') \<and>
   state (objs (snd (resolveHash_1 tooSmall 5 taker4)) ! 0) = Completed"
  by (simp add: taker4_eq expectedAmountMsat_def run_defs fixture_defs)

text \<open>
  The product is the rounded one. The double nearest to 0.001, times 1000, is 1 in
  JavaScript, and a little more than 1 exactly: against a maker's deal with that amount
  an HTLC of 1 msat is not too small.
\<close>

lemma expectedAmountMsat_rounds:
  "expectedAmountMsat (makerDeal\<lparr>makerAmount := binary64 (1 / 1000)\<rparr>) = 1 \<and>
   1 < binary64 (1 / 1000) * 1000"
  unfolding makerDeal_def expectedAmountMsat_def by code_simp

section \<open>The maker's CLTV delta\<close>

text \<open>
  C3. When \<open>acceptDeal\<close> has a route and the block height, and the maker currency is BTC,
  the deal's \<open>makerCltvDelta\<close> is the BTC client's \<open>cltvDelta\<close> plus the route's total
  timelock less the height, divided by the ratio of the LTC to the BTC \<open>cltvDelta\<close>,
  each of the four operations being the one of JavaScript (the result rounded to
  binary64), provided that no operation divides by zero or leaves the finite doubles;
  the swap response sent to the peer carries that value. With 40, 576 and a route
  timelock of 144 at height 0 (the maker's run above) it is 50.
\<close>

theorem makerCltvDelta_BTC:
  assumes "makerCurrency_rq requestBody = ''BTC''" and "a < length (objs s)"
    and "makerToTakerRoutes (objs s ! a) = Some (route # routes)"
    and "cltvDelta (lndBtcClient cl) \<noteq> 0"
    and "divJS (cltvDelta (lndLtcClient cl)) (cltvDelta (lndBtcClient cl)) \<noteq> 0"
    and "finite64 (subJS (totalTimeLock route) height)"
    and "finite64 (divJS (cltvDelta (lndLtcClient cl)) (cltvDelta (lndBtcClient cl)))"
    and "finite64 (divJS (subJS (totalTimeLock route) height)
                         (divJS (cltvDelta (lndLtcClient cl)) (cltvDelta (lndBtcClient cl))))"
    and "finite64 (addJS (cltvDelta (lndBtcClient cl))
                         (divJS (subJS (totalTimeLock route) height)
                                (divJS (cltvDelta (lndLtcClient cl)) (cltvDelta (lndBtcClient cl)))))"
  shows "(case acceptDeal_3 cl a requestBody reqId peer (Inr height) now s of
            (r, s') \<Rightarrow>
              makerCltvDelta (objs s' ! a) =
                Some (addJS (cltvDelta (lndBtcClient cl))
                            (divJS (subJS (totalTimeLock route) height)
                                   (divJS (cltvDelta (lndLtcClient cl))
                                          (cltvDelta (lndBtcClient cl))))) \<and>
              (nodePubKey peer,
               SwapResponsePacket
                 \<lparr>makerCltvDelta_rs = makerCltvDelta (objs s' ! a),
                  r_hash_rs = r_hash_rq requestBody,
                  quantity_rs = Some (proposedQuantity_rq requestBody)\<rparr> reqId)
                \<in> set (sentPackets s')) \<and>
         makerCltvDelta (objs maker3 ! 0) = Some 50"
proof -
  have "makerCltvDelta (objs maker3 ! 0) = Some 50"
    by (simp add: maker3_eq)
  with assms show ?thesis
    by (auto simp add: acceptDeal_3_def setDealPhase_def finiteNumber_def bnd_def getObj_def
          modify_def emit_def sendPacket_def assert_def ret_def throw_def Let_def)
qed

text \<open>
  The theorem at the height 44, where the route's delta is 100: the quotient 576 / 40
  and the quotient 100 / 14.4 are both rounded, and the deal holds 46.94444444444444,
  the double \<open>3303421601673671 / 2^46\<close>.
\<close>

theorem makerCltvDelta_BTC_witness:
  "makerCurrency_rq request1 = ''BTC'' \<and> length (objs maker2) = 1 \<and>
   makerToTakerRoutes (objs maker2 ! 0) = Some [\<lparr>totalTimeLock = 144\<rparr>] \<and>
   cltvDelta (lndBtcClient clients) = 40 \<and> cltvDelta (lndLtcClient clients) = 576 \<and>
   divJS 576 40 \<noteq> 0 \<and> finite64 (subJS 144 44) \<and> finite64 (divJS 576 40) \<and>
   finite64 (divJS (subJS 144 44) (divJS 576 40)) \<and>
   finite64 (addJS 40 (divJS (subJS 144 44) (divJS 576 40))) \<and>
   makerCltvDelta (objs (snd (acceptDeal_3 clients 0 request1 ''r1'' peerT (Inr 44) 3 maker2)) ! 0) =
     Some (3303421601673671 / 70368744177664)"
proof -
  have btc: "makerCurrency_rq request1 = ''BTC''"
    by (simp add: request1_def)
  have len: "length (objs maker2) = 1"
    and routes: "makerToTakerRoutes (objs maker2 ! 0) = Some [\<lparr>totalTimeLock = 144\<rparr>]"
    by (simp_all add: maker2_eq)
  have d1: "cltvDelta (lndBtcClient clients) = 40" and d2: "cltvDelta (lndLtcClient clients) = 576"
    by (simp_all add: clients_def)
  from len have valid: "0 < length (objs maker2)"
    by simp
  from d1 have nz1: "cltvDelta (lndBtcClient clients) \<noteq> 0"
    by simp
  have nz2: "divJS 576 40 \<noteq> 0" and f2: "finite64 (divJS 576 40)"
    and f1: "finite64 (subJS 144 44)"
    and f3: "finite64 (divJS (subJS 144 44) (divJS 576 40))"
    and f4: "finite64 (addJS 40 (divJS (subJS 144 44) (divJS 576 40)))"
    and v: "addJS 40 (divJS (subJS 144 44) (divJS 576 40)) = 3303421601673671 / 70368744177664"
    by code_simp+
  have totalTimeLock: "totalTimeLock \<lparr>totalTimeLock = 144\<rparr> = 144"
    by simp
  note inst = makerCltvDelta_BTC [where cl = clients and route = "\<lparr>totalTimeLock = 144\<rparr>"
      and height = 44 and reqId = "''r1''" and peer = peerT and now = 3, OF btc valid routes nz1,
      unfolded d1 d2 totalTimeLock, OF nz2 f1 f2 f3 f4, unfolded v]
  then have stored:
    "makerCltvDelta (objs (snd (acceptDeal_3 clients 0 request1 ''r1'' peerT (Inr 44) 3 maker2)) ! 0) =
       Some (3303421601673671 / 70368744177664)"
    by (simp only: split_beta)
  from btc len routes d1 d2 nz2 f1 f2 f3 f4 stored show ?thesis
    by (intro conjI)
qed

text \<open>
  With 6 for BTC, 100 for LTC and a route delta of 900 the operations of JavaScript give
  59.99999999999999, the double \<open>8444249301319679 / 2^47\<close>, where the exact value is 60.
\<close>

lemma makerCltvDelta_rounds:
  "addJS 6 (divJS (subJS 900 0) (divJS 100 6)) = 8444249301319679 / 140737488355328 \<and>
   6 + (900 - 0) / (100 / 6) = (60 :: rat)"
  by code_simp

section \<open>The preimage that the send returns\<close>

text \<open>
  C4 on the code. The taker's deal holds the preimage \<open>aa\<close> and is in phase
  \<open>AmountReceived\<close>; \<open>sendPaymentSync\<close> answers without a payment error and with the
  preimage \<open>bb\<close>. The deal is completed and the swap-complete packet is sent: the two
  preimages are not compared.
\<close>

theorem preimage_not_compared:
  "r_preimage (objs taker3 ! 0) = Some ''aa'' \<and> phase (objs taker3 ! 0) = AmountReceived \<and>
   state (objs taker3 ! 0) = Active \<and>
   fst (handleSwapResponse_2 0 ''haa'' peerP (Inr wrongPreimage) 4 taker3) = Inr () \<and>
   phase (objs (snd (handleSwapResponse_2 0 ''haa'' peerP (Inr wrongPreimage) 4 taker3)) ! 0) = SwapCompleted \<and>
   state (objs (snd (handleSwapResponse_2 0 ''haa'' peerP (Inr wrongPreimage) 4 taker3)) ! 0) = Completed \<and>
   last (sentPackets (snd (handleSwapResponse_2 0 ''haa'' peerP (Inr wrongPreimage) 4 taker3))) =
     (''P'', SwapCompletePacket ''haa'')"
  by (simp add: taker3_eq run_defs fixture_defs)

section \<open>The quantity of a swap response\<close>

text \<open>
  C5 on the code. The taker proposed the quantity 1. A response with quantity 2 is
  recorded on the deal, the deal moves to \<open>AmountSent\<close> and the send request is issued; a
  response with quantity 0 is not recorded, and the deal moves on all the same.
\<close>

theorem quantity_not_validated:
  "proposedQuantity (objs taker1 ! 0) = 1 \<and> phase (objs taker1 ! 0) = SwapRequested \<and>
   fst (handleSwapResponse_1 (Some response_more) peerP 2 taker1) = Inr (Awaiting (0, BtcClient, send1)) \<and>
   quantity (objs (snd (handleSwapResponse_1 (Some response_more) peerP 2 taker1)) ! 0) = Some 2 \<and>
   phase (objs (snd (handleSwapResponse_1 (Some response_more) peerP 2 taker1)) ! 0) = AmountSent \<and>
   fst (handleSwapResponse_1 (Some response_zero) peerP 2 taker1) = Inr (Awaiting (0, BtcClient, send1)) \<and>
   quantity (objs (snd (handleSwapResponse_1 (Some response_zero) peerP 2 taker1)) ! 0) = None \<and>
   phase (objs (snd (handleSwapResponse_1 (Some response_zero) peerP 2 taker1)) ! 0) = AmountSent"
  by (simp add: taker1_eq run_defs fixture_defs)

section \<open>The amounts of a deal\<close>

text \<open>
  C7, as the code has it. In every reachable state a deal of role \<open>Taker\<close> (one that
  \<open>beginSwap\<close> created) has the amounts that \<open>calculateSwapAmounts\<close> gave for its proposed
  quantity and its price: \<open>makerAmount\<close> is \<open>Math.round\<close> of the quantity times \<open>10^8\<close>
  and \<open>takerAmount\<close> is \<open>Math.round\<close> of the quantity times the price times \<open>10^8\<close>, the
  products being those of JavaScript, rounded to binary64 one after the other; so it is
  whenever the deal's quantity is defined and equal to the proposed quantity.
\<close>

theorem taker_amounts_kept:
  assumes "reachable s" and "a < length (objs s)" and "myRole (objs s ! a) = Taker"
  shows "calculateSwapAmounts (proposedQuantity (objs s ! a)) (price (objs s ! a)) =
           Some (takerAmount (objs s ! a), makerAmount (objs s ! a)) \<and>
         makerAmount (objs s ! a) =
           Math_round (mulJS (proposedQuantity (objs s ! a)) 100000000) \<and>
         takerAmount (objs s ! a) =
           Math_round (mulJS (mulJS (proposedQuantity (objs s ! a)) (price (objs s ! a))) 100000000) \<and>
         (\<forall>q. quantity (objs s ! a) = Some q \<and> q = proposedQuantity (objs s ! a) \<longrightarrow>
              makerAmount (objs s ! a) = Math_round (mulJS q 100000000) \<and>
              takerAmount (objs s ! a) =
                Math_round (mulJS (mulJS q (price (objs s ! a))) 100000000))"
proof -
  from assms(1) have "takerAmountsInv s"
    by (rule takerAmountsInv_reachable)
  with assms(2,3) have "amountsOK (objs s ! a)"
    by (auto simp add: takerAmountsInv_def list_all_length)
  then show ?thesis
    by (simp add: amountsOK_def calculateSwapAmounts_def Let_def split: if_splits)
qed

theorem taker_amounts_kept_witness:
  "reachable taker4 \<and> length (objs taker4) = 1 \<and> myRole (objs taker4 ! 0) = Taker \<and>
   quantity (objs taker4 ! 0) = Some 1 \<and> proposedQuantity (objs taker4 ! 0) = 1 \<and>
   price (objs taker4 ! 0) = binary64 (1 / 100) \<and>
   calculateSwapAmounts 1 (binary64 (1 / 100)) = Some (1000000, 100000000) \<and>
   makerAmount (objs taker4 ! 0) = 100000000 \<and> takerAmount (objs taker4 ! 0) = 1000000 \<and>
   makerAmount (objs taker4 ! 0) = Math_round (mulJS 1 100000000) \<and>
   takerAmount (objs taker4 ! 0) = Math_round (mulJS (mulJS 1 (binary64 (1 / 100))) 100000000)"
proof -
  have len: "length (objs taker4) = 1" and role: "myRole (objs taker4 ! 0) = Taker"
    and q: "quantity (objs taker4 ! 0) = Some 1" and pq: "proposedQuantity (objs taker4 ! 0) = 1"
    and p: "price (objs taker4 ! 0) = binary64 (1 / 100)"
    and m: "makerAmount (objs taker4 ! 0) = 100000000"
    and t: "takerAmount (objs taker4 ! 0) = 1000000"
    by (simp_all add: taker4_eq takerDeal_def)
  from len have valid: "0 < length (objs taker4)"
    by simp
  from taker_amounts_kept [OF reachable_taker4 valid role] reachable_taker4 len role q pq p m t
  show ?thesis
    by simp
qed

text \<open>
  For a deal of role \<open>Maker\<close> the claim fails: \<open>acceptDeal\<close> copies the amounts of the
  peer's request and takes the quantity from the order to accept. Here the request asks
  for 5 satoshis to the maker, and the registered deal has quantity 1.
\<close>

theorem maker_amounts_counterexample:
  "reachable maker_odd \<and> deals maker_odd ''hbb'' = Some 0 \<and>
   quantity (objs maker_odd ! 0) = Some 1 \<and> makerAmount (objs maker_odd ! 0) = 5 \<and>
   Math_round (mulJS 1 100000000) = 100000000"
proof -
  have "deals maker_odd ''hbb'' = Some 0 \<and>
   quantity (objs maker_odd ! 0) = Some 1 \<and> makerAmount (objs maker_odd ! 0) = 5 \<and>
   Math_round (mulJS 1 100000000) = 100000000"
    by (simp add: maker_odd_eq makerDeal_def numbers)
  with reachable_maker_odd show ?thesis
    by simp
qed

text \<open>
  A response that accepts half of the proposed quantity sets the deal's quantity to 1/2
  and leaves the amounts at those of quantity 1 (the adjustment is a comment marked TODO
  in \<open>handleSwapResponse\<close>), while \<open>calculateSwapAmounts\<close> gives 500000 and 50000000 for
  quantity 1/2 at price 0.01.
\<close>

lemma partial_quantity_keeps_amounts:
  "deals (snd (handleSwapResponse_1 (Some response_half) peerP 2 taker1)) ''haa'' = Some 0 \<and>
   quantity (objs (snd (handleSwapResponse_1 (Some response_half) peerP 2 taker1)) ! 0) = Some (1 / 2) \<and>
   price (objs (snd (handleSwapResponse_1 (Some response_half) peerP 2 taker1)) ! 0) = binary64 (1 / 100) \<and>
   makerAmount (objs (snd (handleSwapResponse_1 (Some response_half) peerP 2 taker1)) ! 0) = 100000000 \<and>
   takerAmount (objs (snd (handleSwapResponse_1 (Some response_half) peerP 2 taker1)) ! 0) = 1000000 \<and>
   calculateSwapAmounts (1 / 2) (binary64 (1 / 100)) = Some (500000, 50000000)"
  by (simp add: taker1_eq run_defs fixture_defs)

text \<open>
  The products are the rounded ones. For the quantity \<open>1.5e-7\<close> at the price 0.1 the
  taker's amount is 1: the second product is a little below 1.5 in JavaScript, and a
  little above it when nothing is rounded.
\<close>

lemma calculateSwapAmounts_rounds:
  "calculateSwapAmounts (binary64 (15 / 100000000)) (binary64 (1 / 10)) = Some (1, 15) \<and>
   Math_round (binary64 (15 / 100000000) * binary64 (1 / 10) * 100000000) = 2"
  by code_simp


section \<open>The events of a deal\<close>

text \<open>
  C2, as the code has it. In every reachable state, for a deal whose state has left
  \<open>Active\<close>: neither \<open>swap.paid\<close> nor \<open>swap.failed\<close> has been emitted more than once for
  it, and at least one of them has; a deal in state \<open>Completed\<close> has one \<open>swap.paid\<close> and
  no \<open>swap.failed\<close>; a deal in state \<open>Error\<close> has one \<open>swap.failed\<close>, and one \<open>swap.paid\<close>
  as well exactly when it had reached the phase \<open>AmountReceived\<close> before it failed.
\<close>

theorem events_of_a_finished_deal:
  assumes "reachable s" and "a < length (objs s)" and "state (objs s ! a) \<noteq> Active"
  shows "paidCount a s \<le> 1 \<and> failedCount a s \<le> 1 \<and> 1 \<le> paidCount a s + failedCount a s \<and>
         (if state (objs s ! a) = Completed then paidCount a s = 1 \<and> failedCount a s = 0
          else failedCount a s = 1 \<and>
               paidCount a s = (if phase (objs s ! a) = AmountReceived then 1 else 0))"
proof -
  from assms(1) have "eventsInv s"
    by (rule eventsInv_reachable)
  with assms(2) have ok: "dealEventsOK a s"
    by (simp add: eventsInv_def split: if_splits)
  from assms(3) ok show ?thesis
    by (cases "state (objs s ! a)") (auto simp add: dealEventsOK_def)
qed

theorem events_of_a_finished_deal_witness:
  "reachable taker4 \<and> length (objs taker4) = 1 \<and> state (objs taker4 ! 0) = Completed \<and>
   paidCount 0 taker4 = 1 \<and> failedCount 0 taker4 = 0"
proof -
  have len: "length (objs taker4) = 1" and fin: "state (objs taker4 ! 0) = Completed"
    by (simp_all add: taker4_eq)
  from len have valid: "0 < length (objs taker4)"
    by simp
  from fin have left: "state (objs taker4 ! 0) \<noteq> Active"
    by simp
  from events_of_a_finished_deal [OF reachable_taker4 valid left] reachable_taker4 len fin
  show ?thesis
    by simp
qed

text \<open>
  Both events for one deal: the maker has forwarded the payment and emitted \<open>swap.paid\<close>
  on reaching \<open>AmountReceived\<close>; the swap-error packet that the peer sends next sets the
  deal, still \<open>Active\<close>, to \<open>Error\<close> and emits \<open>swap.failed\<close>.
\<close>

theorem paid_and_failed_counterexample:
  "reachable maker6 \<and> length (objs maker6) = 1 \<and> state (objs maker6 ! 0) = Error \<and>
   paidCount 0 maker6 = 1 \<and> failedCount 0 maker6 = 1"
proof -
  have "length (objs maker6) = 1 \<and> state (objs maker6 ! 0) = Error \<and>
        paidCount 0 maker6 = 1 \<and> failedCount 0 maker6 = 1"
    by (simp add: maker6_eq paidCount_def failedCount_def)
  with reachable_maker6 show ?thesis
    by simp
qed

section \<open>Terminal states\<close>

text \<open>
  C6. For a deal whose state is \<open>Error\<close> or \<open>Completed\<close>: \<open>setDealPhase\<close> fails its first
  assertion and changes nothing; \<open>setDealState\<close> to \<open>Error\<close> on a deal in \<open>Error\<close> appends
  \<open>; \<close> and the reason to \<open>stateReason\<close> and changes nothing else (the event log
  included), and every other \<open>setDealState\<close> fails its assertion and changes nothing;
  and after any number of further steps of the node the deal still has the same phase
  and the same state.
\<close>

theorem terminal_deal_frozen:
  assumes "a < length (objs s)" and "state (objs s ! a) \<noteq> Active"
  shows "setDealPhase a newPhase now s =
           (Inl (AssertionError ''deal is not Active. Can not change deal phase''), s) \<and>
         setDealState a newState reason s =
           (if state (objs s ! a) = Error \<and> newState = Error
            then (Inr (), s\<lparr>objs := (objs s)[a := (objs s ! a)
                                 \<lparr>stateReason := stateReason (objs s ! a) @ ''; '' @ reason\<rparr>]\<rparr>)
            else (Inl (AssertionError ''deal is not Active. Can not change deal state''), s)) \<and>
         (\<forall>s'. rtranclp step s s' \<longrightarrow>
               a < length (objs s') \<and> phase (objs s' ! a) = phase (objs s ! a) \<and>
               state (objs s' ! a) = state (objs s ! a))"
proof (intro conjI)
  from assms(2) show "setDealPhase a newPhase now s =
      (Inl (AssertionError ''deal is not Active. Can not change deal phase''), s)"
    by (simp add: setDealPhase_def bnd_def getObj_def assert_def throw_def)
next
  from assms(2) show "setDealState a newState reason s =
           (if state (objs s ! a) = Error \<and> newState = Error
            then (Inr (), s\<lparr>objs := (objs s)[a := (objs s ! a)
                                 \<lparr>stateReason := stateReason (objs s ! a) @ ''; '' @ reason\<rparr>]\<rparr>)
            else (Inl (AssertionError ''deal is not Active. Can not change deal state''), s))"
    by (auto simp add: setDealState_def bnd_def getObj_def modify_def assert_def throw_def)
next
  show "\<forall>s'. rtranclp step s s' \<longrightarrow>
               a < length (objs s') \<and> phase (objs s' ! a) = phase (objs s ! a) \<and>
               state (objs s' ! a) = state (objs s ! a)"
  proof (intro allI impI)
    fix s' assume run: "rtranclp step s s'"
    from assms(1) have "frozenAt a (phase (objs s ! a)) (state (objs s ! a)) s"
      by (simp add: frozenAt_def)
    from frozenAt_run [OF assms(2) run this]
    show "a < length (objs s') \<and> phase (objs s' ! a) = phase (objs s ! a) \<and>
          state (objs s' ! a) = state (objs s ! a)"
      by (simp add: frozenAt_def)
  qed
qed

theorem terminal_deal_frozen_witness:
  "length (objs maker6) = 1 \<and> state (objs maker6 ! 0) = Error \<and>
   stateReason (objs maker6 ! 0) = ''boom'' \<and>
   setDealPhase 0 SwapCompleted 7 maker6 =
     (Inl (AssertionError ''deal is not Active. Can not change deal phase''), maker6) \<and>
   setDealState 0 Completed ''x'' maker6 =
     (Inl (AssertionError ''deal is not Active. Can not change deal state''), maker6) \<and>
   setDealState 0 Error ''again'' maker6 =
     (Inr (), maker6\<lparr>objs := (objs maker6)[0 := (objs maker6 ! 0)\<lparr>stateReason := ''boom; again''\<rparr>]\<rparr>) \<and>
   state (objs (snd (handleSwapComplete ''haa'' 8 maker6)) ! 0) = Error \<and>
   phase (objs (snd (handleSwapComplete ''haa'' 8 maker6)) ! 0) = AmountReceived"
proof -
  have len: "length (objs maker6) = 1" and failed: "state (objs maker6 ! 0) = Error"
    and why: "stateReason (objs maker6 ! 0) = ''boom''"
    and ph: "phase (objs maker6 ! 0) = AmountReceived"
    by (simp_all add: maker6_eq)
  from len have valid: "0 < length (objs maker6)"
    by simp
  from failed have left: "state (objs maker6 ! 0) \<noteq> Active"
    by simp
  have later: "rtranclp step maker6 (snd (handleSwapComplete ''haa'' 8 maker6))"
    by (rule r_into_rtranclp) (rule handleSwapComplete_step)
  note frozen = terminal_deal_frozen [OF valid left]
  from frozen [of SwapCompleted 7 Completed "''x''"] frozen [of SwapCompleted 7 Error "''again''"]
    later len failed why ph
  show ?thesis
    by simp
qed

end
